theory Spec2Isabelle
  imports Main "HOL-Library.Word"
begin

section \<open>Shared types\<close>

text \<open>
  \<^verbatim>\<open>Address\<close> and \<^verbatim>\<open>Caip2Id\<close> are JavaScript strings, \<^verbatim>\<open>DomainId\<close> is a number.
  A thrown JavaScript exception is a value of \<open>js_error\<close>: \<open>Error msg\<close> is
  \<^verbatim>\<open>new Error(msg)\<close>, \<open>TypeError\<close> is what the runtime raises when a property of
  \<^verbatim>\<open>undefined\<close> is read or called.
\<close>

type_synonym Address = string
type_synonym Caip2Id = string
type_synonym DomainId = nat

datatype js_error = Error string | TypeError

section \<open>The route graph (features/tokens/routes.ts)\<close>

datatype RouteType = BaseToSynthetic | SyntheticToSynthetic | SyntheticToBase

record Route =
  rtype :: RouteType
  baseCaip2Id :: Caip2Id
  baseTokenAddress :: Address
  tokenRouterAddress :: Address
  originTokenAddress :: Address
  destTokenAddress :: Address
  decimals :: int

text \<open>
  \<^verbatim>\<open>RoutesMap = Record<Caip2Id, Record<Caip2Id, Route[]>>\<close>: origin chain to
  destination chain to the edge list. A key that was never assigned reads as
  \<^verbatim>\<open>undefined\<close>, here \<open>None\<close>; the keys are CAIP-2 chain ids such as
  \<open>ethereum:1\<close>, none of which names a property that a plain object inherits.
\<close>

type_synonym RoutesMap = "Caip2Id \<rightharpoonup> (Caip2Id \<rightharpoonup> Route list)"

text \<open>
  \<^verbatim>\<open>TokenType\<close> is the enum of the package \<^verbatim>\<open>@hyperlane-xyz/hyperlane-token\<close>;
  \<^verbatim>\<open>validateTokenMetadata\<close> compares with its member \<^verbatim>\<open>collateral\<close> only.
\<close>

datatype TokenType = synthetic | syntheticUri | collateral | collateralUri | native

text \<open>
  Modelled from the spec: the \<^verbatim>\<open>ProtocolType\<close> enum, declared in
  \<^verbatim>\<open>features/chains/types\<close>, which is not among the source files. The members are the
  four protocols of the spec's data model; \<^verbatim>\<open>routes.ts\<close> names \<^verbatim>\<open>Ethereum\<close> and
  \<^verbatim>\<open>Sealevel\<close>.
\<close>

datatype ProtocolType = Ethereum | Cosmos | CosmWasm | Sealevel

text \<open>
  An element of \<^verbatim>\<open>token.hypTokens\<close> is \<^verbatim>\<open>{ address, caip2Id }\<close>. A token
  (\<^verbatim>\<open>TokenMetadata\<close>) has these two fields as well, so it is the extension of that record
  by the fields \<^verbatim>\<open>routes.ts\<close> reads, and \<^verbatim>\<open>TokenMetadataWithHypTokens\<close> extends it
  by \<^verbatim>\<open>hypTokens\<close>. Field names are global in a theory: the token's
  \<^verbatim>\<open>tokenRouterAddress\<close>, \<^verbatim>\<open>decimals\<close> and \<^verbatim>\<open>type\<close> are \<open>routerAddress\<close>,
  \<open>tokenDecimals\<close> and \<open>tokenType\<close> here, the route's \<^verbatim>\<open>type\<close> is \<open>rtype\<close>.
  \<^verbatim>\<open>decimals\<close> is a JavaScript number holding an integer. \<^verbatim>\<open>protocol\<close> is optional:
  \<open>None\<close> is \<^verbatim>\<open>undefined\<close>.
\<close>

record HypToken =
  address :: Address
  caip2Id :: Caip2Id

record TokenMetadata = HypToken +
  routerAddress :: Address
  tokenDecimals :: int
  symbol :: string
  tokenType :: TokenType
  protocol :: "ProtocolType option"

record TokenMetadataWithHypTokens = TokenMetadata +
  hypTokens :: "HypToken list"

subsection \<open>getChainsFromTokens\<close>

text \<open>
  \<^verbatim>\<open>chains.add(c)\<close> on a JavaScript \<^verbatim>\<open>Set\<close> keeps insertion order and ignores a
  value already present; \<^verbatim>\<open>Array.from(chains)\<close> lists the set in that order.
\<close>

definition set_add :: "Caip2Id \<Rightarrow> Caip2Id list \<Rightarrow> Caip2Id list" where
  "set_add c cs = (if c \<in> set cs then cs else cs @ [c])"

definition getChainsFromTokens :: "TokenMetadataWithHypTokens list \<Rightarrow> Caip2Id list" where
  "getChainsFromTokens tokens =
     fold (\<lambda>token cs. fold (\<lambda>hypToken. set_add (caip2Id hypToken)) (hypTokens token)
                             (set_add (caip2Id token) cs))
          tokens []"

subsection \<open>computeTokenRoutes\<close>

text \<open>The skeleton: \<^verbatim>\<open>tokenRoutes[origin] = {}\<close>, then \<^verbatim>\<open>tokenRoutes[origin][dest] = []\<close>
  for every \<^verbatim>\<open>dest\<close> other than \<^verbatim>\<open>origin\<close>.\<close>

definition initDests :: "Caip2Id \<Rightarrow> Caip2Id list \<Rightarrow> (Caip2Id \<rightharpoonup> Route list)" where
  "initDests origin allChainIds =
     fold (\<lambda>dest inner. if origin = dest then inner else inner(dest \<mapsto> [])) allChainIds Map.empty"

definition initRoutes :: "Caip2Id list \<Rightarrow> RoutesMap" where
  "initRoutes allChainIds =
     fold (\<lambda>origin m. m(origin \<mapsto> initDests origin allChainIds)) allChainIds Map.empty"

text \<open>\<^verbatim>\<open>tokenRoutes[o][d].push(r)\<close>: a \<^verbatim>\<open>TypeError\<close> when \<^verbatim>\<open>tokenRoutes[o]\<close> or
  \<^verbatim>\<open>tokenRoutes[o][d]\<close> is \<^verbatim>\<open>undefined\<close>, otherwise \<^verbatim>\<open>r\<close> is appended.\<close>

definition push :: "RoutesMap \<Rightarrow> Caip2Id \<Rightarrow> Caip2Id \<Rightarrow> Route \<Rightarrow> js_error + RoutesMap" where
  "push m orig dest r =
     (case m orig of
        None \<Rightarrow> Inl TypeError
      | Some inner \<Rightarrow>
          (case inner dest of
             None \<Rightarrow> Inl TypeError
           | Some rs \<Rightarrow> Inr (m(orig \<mapsto> inner(dest \<mapsto> rs @ [r])))))"

definition mkRoute ::
  "RouteType \<Rightarrow> TokenMetadataWithHypTokens \<Rightarrow> Address \<Rightarrow> Address \<Rightarrow> Route" where
  "mkRoute ty token orig dest =
     \<lparr> rtype = ty,
       baseCaip2Id = caip2Id token,
       baseTokenAddress = address token,
       tokenRouterAddress = routerAddress token,
       originTokenAddress = orig,
       destTokenAddress = dest,
       decimals = tokenDecimals token \<rparr>"

text \<open>The innermost loop, \<^verbatim>\<open>for (const otherHypToken of token.hypTokens)\<close>.\<close>

fun siblingLoop ::
  "TokenMetadataWithHypTokens \<Rightarrow> HypToken \<Rightarrow> HypToken list \<Rightarrow> RoutesMap \<Rightarrow> js_error + RoutesMap"
where
  "siblingLoop token hypToken [] m = Inr m"
| "siblingLoop token hypToken (otherHypToken # rest) m =
     (if caip2Id otherHypToken = caip2Id hypToken then siblingLoop token hypToken rest m
      else
        (case push m (caip2Id hypToken) (caip2Id otherHypToken)
                (mkRoute SyntheticToSynthetic token (address hypToken) (address otherHypToken)) of
           Inl e \<Rightarrow> Inl e
         | Inr m1 \<Rightarrow>
             (case push m1 (caip2Id otherHypToken) (caip2Id hypToken)
                     (mkRoute SyntheticToSynthetic token (address otherHypToken) (address hypToken)) of
                Inl e \<Rightarrow> Inl e
              | Inr m2 \<Rightarrow> siblingLoop token hypToken rest m2)))"

text \<open>One pass of the body of \<^verbatim>\<open>for (const hypToken of token.hypTokens)\<close>.\<close>

definition hypTokenStep ::
  "TokenMetadataWithHypTokens \<Rightarrow> HypToken \<Rightarrow> RoutesMap \<Rightarrow> js_error + RoutesMap" where
  "hypTokenStep token hypToken m =
     (case push m (caip2Id token) (caip2Id hypToken)
             (mkRoute BaseToSynthetic token (routerAddress token) (address hypToken)) of
        Inl e \<Rightarrow> Inl e
      | Inr m1 \<Rightarrow>
          (case push m1 (caip2Id hypToken) (caip2Id token)
                  (mkRoute SyntheticToBase token (address hypToken) (routerAddress token)) of
             Inl e \<Rightarrow> Inl e
           | Inr m2 \<Rightarrow> siblingLoop token hypToken (hypTokens token) m2))"

fun hypTokenLoop ::
  "TokenMetadataWithHypTokens \<Rightarrow> HypToken list \<Rightarrow> RoutesMap \<Rightarrow> js_error + RoutesMap" where
  "hypTokenLoop token [] m = Inr m"
| "hypTokenLoop token (hypToken # rest) m =
     (case hypTokenStep token hypToken m of
        Inl e \<Rightarrow> Inl e
      | Inr m' \<Rightarrow> hypTokenLoop token rest m')"

fun tokenLoop :: "TokenMetadataWithHypTokens list \<Rightarrow> RoutesMap \<Rightarrow> js_error + RoutesMap" where
  "tokenLoop [] m = Inr m"
| "tokenLoop (token # rest) m =
     (case hypTokenLoop token (hypTokens token) m of
        Inl e \<Rightarrow> Inl e
      | Inr m' \<Rightarrow> tokenLoop rest m')"

definition computeTokenRoutes :: "TokenMetadataWithHypTokens list \<Rightarrow> js_error + RoutesMap" where
  "computeTokenRoutes tokens = tokenLoop tokens (initRoutes (getChainsFromTokens tokens))"

subsection \<open>The query functions\<close>

text \<open>\<^verbatim>\<open>obj?.[k]\<close> is \<^verbatim>\<open>undefined\<close> when \<^verbatim>\<open>obj\<close> is, and \<^verbatim>\<open>obj[k]\<close> otherwise;
  \<^verbatim>\<open>x || y\<close> is \<^verbatim>\<open>y\<close> when \<^verbatim>\<open>x\<close> is \<^verbatim>\<open>undefined\<close> and \<^verbatim>\<open>x\<close> when it is an object
  (an array, even an empty one, is truthy).\<close>

definition optional_index :: "('k \<rightharpoonup> 'v) option \<Rightarrow> 'k \<Rightarrow> 'v option" where
  "optional_index obj k = (case obj of None \<Rightarrow> None | Some f \<Rightarrow> f k)"

definition or_else :: "'a option \<Rightarrow> 'a \<Rightarrow> 'a" where
  "or_else x y = (case x of None \<Rightarrow> y | Some v \<Rightarrow> v)"

text \<open>\<^verbatim>\<open>return tokenRoutes[originCaip2Id]?.[destinationCaip2Id] || []\<close>\<close>

definition getTokenRoutes :: "Caip2Id \<Rightarrow> Caip2Id \<Rightarrow> RoutesMap \<Rightarrow> Route list" where
  "getTokenRoutes originCaip2Id destinationCaip2Id tokenRoutes =
     or_else (optional_index (tokenRoutes originCaip2Id) destinationCaip2Id) []"

text \<open>
  \<^verbatim>\<open>isValidEvmAddress\<close> and \<^verbatim>\<open>areAddressesEqual\<close> come from \<^verbatim>\<open>utils/addresses\<close>,
  which is not among the source files: they are parameters here, a predicate on
  addresses and a relation between addresses. \<^verbatim>\<open>Array.prototype.find\<close> returns the
  first element that satisfies the predicate, or \<^verbatim>\<open>undefined\<close>; \<^verbatim>\<open>|| null\<close> turns
  \<^verbatim>\<open>undefined\<close> into \<^verbatim>\<open>null\<close>. Both are \<open>None\<close>.
\<close>

definition getTokenRoute ::
  "(Address \<Rightarrow> bool) \<Rightarrow> (Address \<Rightarrow> Address \<Rightarrow> bool) \<Rightarrow>
   Caip2Id \<Rightarrow> Caip2Id \<Rightarrow> Address \<Rightarrow> RoutesMap \<Rightarrow> Route option" where
  "getTokenRoute isValidEvmAddress areAddressesEqual originCaip2Id destinationCaip2Id addr tokenRoutes =
     (if \<not> isValidEvmAddress addr then None
      else find (\<lambda>r. areAddressesEqual addr (baseTokenAddress r))
                (getTokenRoutes originCaip2Id destinationCaip2Id tokenRoutes))"

definition hasTokenRoute ::
  "(Address \<Rightarrow> bool) \<Rightarrow> (Address \<Rightarrow> Address \<Rightarrow> bool) \<Rightarrow>
   Caip2Id \<Rightarrow> Caip2Id \<Rightarrow> Address \<Rightarrow> RoutesMap \<Rightarrow> bool" where
  "hasTokenRoute isValidEvmAddress areAddressesEqual originCaip2Id destinationCaip2Id addr tokenRoutes =
     (getTokenRoute isValidEvmAddress areAddressesEqual originCaip2Id destinationCaip2Id addr tokenRoutes
        \<noteq> None)"

section \<open>The EVM adapters (features/tokens/adapters/EvmTokenContractAdapter.ts)\<close>

text \<open>
  \<^verbatim>\<open>amountOrId\<close> is \<^verbatim>\<open>string | number\<close>. A \<^verbatim>\<open>PopulatedTransaction\<close> is the unsigned
  transaction of ethers; the fields the adapters set are kept.
\<close>

datatype AmountOrId = Str string | Num int

record PopulatedTransaction =
  tx_to :: "Address option"
  tx_value :: "int option"
  tx_data :: "string option"

text \<open>
  The contract object an adapter holds (\<^verbatim>\<open>this.contract\<close>) belongs to ethers and to the
  chain behind it. It is modelled by what each of its calls answers: a value, or a
  rejection. \<^verbatim>\<open>routers(domain)\<close> answers the router as 32 bytes.
\<close>

record EvmContract =
  decimals_call :: "js_error + int"
  symbol_call :: "js_error + string"
  name_call :: "js_error + string"
  domains_call :: "js_error + DomainId list"
  routers_call :: "DomainId \<Rightarrow> js_error + string"
  populate_approve :: "Address \<Rightarrow> AmountOrId \<Rightarrow> js_error + PopulatedTransaction"
  populate_transfer :: "Address \<Rightarrow> AmountOrId \<Rightarrow> js_error + PopulatedTransaction"

text \<open>
  The four classes of the file, each a subclass of the one before. A subclass inherits
  every method it does not override. The signer or provider and the contract address of
  an adapter serve to build its contract object, which stands for them here.
\<close>

datatype EvmAdapter =
    EvmNativeTokenAdapter
  | EvmTokenAdapter EvmContract
  | EvmHypTokenAdapter EvmContract
  | EvmHypTokenCollateralAdapter EvmContract

record Metadata =
  md_decimals :: int
  md_symbol :: string
  md_name :: string

text \<open>
  \<^verbatim>\<open>Promise.all\<close> of the three reads: the values when all three succeed. When several
  reads reject, JavaScript reports the one that rejects first in time; the model reports
  the first in the order of the array.
\<close>

definition contractMetadata :: "EvmContract \<Rightarrow> js_error + Metadata" where
  "contractMetadata c =
     (case decimals_call c of
        Inl e \<Rightarrow> Inl e
      | Inr d \<Rightarrow>
          (case symbol_call c of
             Inl e \<Rightarrow> Inl e
           | Inr s \<Rightarrow>
               (case name_call c of
                  Inl e \<Rightarrow> Inl e
                | Inr n \<Rightarrow> Inr \<lparr> md_decimals = d, md_symbol = s, md_name = n \<rparr>)))"

fun getMetadata :: "EvmAdapter \<Rightarrow> js_error + Metadata" where
  "getMetadata EvmNativeTokenAdapter = Inl (Error ''Metadata not available to native tokens'')"
| "getMetadata (EvmTokenAdapter c) = contractMetadata c"
| "getMetadata (EvmHypTokenAdapter c) = contractMetadata c"
| "getMetadata (EvmHypTokenCollateralAdapter c) =
     Inl (Error ''Metadata not available for HypCollateral/HypNative contract.'')"

fun prepareApproveTx :: "EvmAdapter \<Rightarrow> Address \<Rightarrow> AmountOrId \<Rightarrow> js_error + PopulatedTransaction" where
  "prepareApproveTx EvmNativeTokenAdapter recipient amountOrId =
     Inl (Error ''Approve not required for native tokens'')"
| "prepareApproveTx (EvmTokenAdapter c) recipient amountOrId = populate_approve c recipient amountOrId"
| "prepareApproveTx (EvmHypTokenAdapter c) recipient amountOrId = populate_approve c recipient amountOrId"
| "prepareApproveTx (EvmHypTokenCollateralAdapter c) recipient amountOrId =
     Inl (Error ''Approve not applicable to HypCollateral/HypNative contract.'')"

text \<open>\<^verbatim>\<open>BigNumber.from\<close> belongs to ethers: it is the parameter \<open>bigNumberFrom\<close>, a big
  integer or a rejection of the argument.\<close>

fun prepareTransferTx ::
  "(AmountOrId \<Rightarrow> js_error + int) \<Rightarrow> EvmAdapter \<Rightarrow> Address \<Rightarrow> AmountOrId \<Rightarrow>
   js_error + PopulatedTransaction" where
  "prepareTransferTx bigNumberFrom EvmNativeTokenAdapter recipient amountOrId =
     (case bigNumberFrom amountOrId of
        Inl e \<Rightarrow> Inl e
      | Inr v \<Rightarrow> Inr \<lparr> tx_to = Some recipient, tx_value = Some v, tx_data = None \<rparr>)"
| "prepareTransferTx bigNumberFrom (EvmTokenAdapter c) recipient amountOrId =
     populate_transfer c recipient amountOrId"
| "prepareTransferTx bigNumberFrom (EvmHypTokenAdapter c) recipient amountOrId =
     populate_transfer c recipient amountOrId"
| "prepareTransferTx bigNumberFrom (EvmHypTokenCollateralAdapter c) recipient amountOrId =
     Inl (Error ''Local transfer not supported for HypCollateral/HypNative contract.'')"

text \<open>
  The router methods exist from \<^verbatim>\<open>EvmHypTokenAdapter\<close> on; calling one on an object of a
  class without it is the runtime's \<^verbatim>\<open>TypeError\<close>.
\<close>

fun getDomains :: "EvmAdapter \<Rightarrow> js_error + DomainId list" where
  "getDomains (EvmHypTokenAdapter c) = domains_call c"
| "getDomains (EvmHypTokenCollateralAdapter c) = domains_call c"
| "getDomains _ = Inl TypeError"

text \<open>\<^verbatim>\<open>normalizeEvmAddress\<close> (\<^verbatim>\<open>utils/addresses\<close>) and \<^verbatim>\<open>utils.bytes32ToAddress\<close>
  (\<^verbatim>\<open>@hyperlane-xyz/utils\<close>) are not among the source files: they are parameters.\<close>

fun getRouterAddress ::
  "(string \<Rightarrow> Address) \<Rightarrow> (string \<Rightarrow> string) \<Rightarrow> EvmAdapter \<Rightarrow> DomainId \<Rightarrow> js_error + Address" where
  "getRouterAddress normalizeEvmAddress bytes32ToAddress (EvmHypTokenAdapter c) d =
     (case routers_call c d of
        Inl e \<Rightarrow> Inl e
      | Inr routerAddressesAsBytes32 \<Rightarrow>
          Inr (normalizeEvmAddress (bytes32ToAddress routerAddressesAsBytes32)))"
| "getRouterAddress normalizeEvmAddress bytes32ToAddress (EvmHypTokenCollateralAdapter c) d =
     (case routers_call c d of
        Inl e \<Rightarrow> Inl e
      | Inr routerAddressesAsBytes32 \<Rightarrow>
          Inr (normalizeEvmAddress (bytes32ToAddress routerAddressesAsBytes32)))"
| "getRouterAddress normalizeEvmAddress bytes32ToAddress _ d = Inl TypeError"

text \<open>\<^verbatim>\<open>Promise.all(promises)\<close>: the array of the values, in the order of the promises,
  when every promise fulfils; a rejection otherwise.\<close>

fun promise_all :: "(js_error + 'a) list \<Rightarrow> js_error + 'a list" where
  "promise_all [] = Inr []"
| "promise_all (p # ps) =
     (case p of
        Inl e \<Rightarrow> Inl e
      | Inr v \<Rightarrow> (case promise_all ps of Inl e \<Rightarrow> Inl e | Inr vs \<Rightarrow> Inr (v # vs)))"

text \<open>\<^verbatim>\<open>routers[i]\<close>: the element, or \<^verbatim>\<open>undefined\<close> past the end of the array.\<close>

definition at_index :: "'a list \<Rightarrow> nat \<Rightarrow> 'a option" where
  "at_index xs i = (if i < length xs then Some (xs ! i) else None)"

text \<open>An element of the result of \<^verbatim>\<open>getAllRouters\<close>, \<^verbatim>\<open>{ domain, address }\<close>.\<close>

record RouterEntry =
  domain :: DomainId
  routerEntryAddress :: "Address option"

text \<open>\<^verbatim>\<open>domains.map((d, i) => ({ domain: d, address: routers[i] }))\<close>\<close>

definition pairRouters :: "DomainId list \<Rightarrow> Address list \<Rightarrow> RouterEntry list" where
  "pairRouters domains routers =
     map (\<lambda>(i, d). \<lparr> domain = d, routerEntryAddress = at_index routers i \<rparr>)
         (zip [0 ..< length domains] domains)"

definition getAllRouters ::
  "(string \<Rightarrow> Address) \<Rightarrow> (string \<Rightarrow> string) \<Rightarrow> EvmAdapter \<Rightarrow> js_error + RouterEntry list" where
  "getAllRouters normalizeEvmAddress bytes32ToAddress adapter =
     (case getDomains adapter of
        Inl e \<Rightarrow> Inl e
      | Inr domains \<Rightarrow>
          (case promise_all
                  (map (getRouterAddress normalizeEvmAddress bytes32ToAddress adapter) domains) of
             Inl e \<Rightarrow> Inl e
           | Inr routers \<Rightarrow> Inr (pairRouters domains routers)))"

section \<open>Metadata validation (validateTokenMetadata in features/tokens/routes.ts)\<close>

text \<open>
  A number inside a template literal is printed by \<^verbatim>\<open>Number.prototype.toString\<close>: for an
  integer (of magnitude below \<open>10\<^sup>2\<^sup>1\<close>) its decimal digits, after a minus sign when it is
  negative.
\<close>

definition digit :: "nat \<Rightarrow> char" where
  "digit n = ''0123456789'' ! n"

fun natToString :: "nat \<Rightarrow> string" where
  "natToString n = (if n < 10 then [digit n] else natToString (n div 10) @ [digit (n mod 10)])"

definition numberToString :: "int \<Rightarrow> string" where
  "numberToString i = (if i < 0 then CHR ''-'' # natToString (nat (- i)) else natToString (nat i))"

text \<open>
  What the chains answer. \<open>wrappedToken_call env chain router\<close> is
  \<^verbatim>\<open>getHypErc20CollateralContract(tokenRouterAddress, getProvider(caip2Id)).wrappedToken()\<close>,
  and \<open>erc20At env chain a\<close> is the ERC20 contract at address \<open>a\<close> seen through the
  provider of the chain, as \<^verbatim>\<open>new EvmTokenAdapter(provider, a)\<close> wraps it.
\<close>

record ChainEnv =
  wrappedToken_call :: "Caip2Id \<Rightarrow> Address \<Rightarrow> js_error + Address"
  erc20At :: "Caip2Id \<Rightarrow> Address \<Rightarrow> EvmContract"

text \<open>
  The tail of the function, from \<^verbatim>\<open>await tokenAdapter!.getMetadata()\<close> on.
  \<^verbatim>\<open>tokenAdapter\<close> is still \<^verbatim>\<open>undefined\<close> (\<open>None\<close>) when neither branch has assigned it;
  the call on it is then the runtime's \<^verbatim>\<open>TypeError\<close>.
\<close>

definition compareMetadata :: "'a TokenMetadata_scheme \<Rightarrow> EvmAdapter option \<Rightarrow> js_error + unit" where
  "compareMetadata token tokenAdapter =
     (case tokenAdapter of
        None \<Rightarrow> Inl TypeError
      | Some adapter \<Rightarrow>
          (case getMetadata adapter of
             Inl e \<Rightarrow> Inl e
           | Inr md \<Rightarrow>
               if tokenDecimals token \<noteq> md_decimals md then
                 Inl (Error (''Token config decimals '' @ numberToString (tokenDecimals token)
                             @ '' does not match contract decimals ''
                             @ numberToString (md_decimals md)))
               else if symbol token \<noteq> md_symbol md then
                 Inl (Error (''Token config symbol '' @ symbol token
                             @ '' does not match contract decimals '' @ md_symbol md))
               else Inr ()))"

definition validateTokenMetadata :: "ChainEnv \<Rightarrow> 'a TokenMetadata_scheme \<Rightarrow> js_error + unit" where
  "validateTokenMetadata env token =
     (if tokenType token \<noteq> collateral then Inr ()
      else
        (case (case protocol token of None \<Rightarrow> Ethereum | Some p \<Rightarrow> p) of
           Ethereum \<Rightarrow>
             (case wrappedToken_call env (caip2Id token) (routerAddress token) of
                Inl e \<Rightarrow> Inl e
              | Inr wrappedTokenAddr \<Rightarrow>
                  compareMetadata token
                    (Some (EvmTokenAdapter (erc20At env (caip2Id token) wrappedTokenAddr))))
         | Sealevel \<Rightarrow> Inr ()
         | _ \<Rightarrow> compareMetadata token None))"

section \<open>The Cosmos IBC adapter (features/tokens/CosmNativeTokenAdapter.ts)\<close>

definition COSMOS_IBC_TRANSFER_TIMEOUT :: int where
  "COSMOS_IBC_TRANSFER_TIMEOUT = 60000"

text \<open>
  The \<^verbatim>\<open>properties\<close> argument. Its type promises three strings, but the constructor
  tests each of them, so a field may be absent at run time: \<open>None\<close> is \<^verbatim>\<open>undefined\<close>.
  \<^verbatim>\<open>!s\<close> holds of \<^verbatim>\<open>undefined\<close> and of the empty string.
\<close>

record IbcProperties =
  ibcDenom :: "string option"
  sourcePort :: "string option"
  sourceChannel :: "string option"

definition falsy :: "string option \<Rightarrow> bool" where
  "falsy s = (case s of None \<Rightarrow> True | Some str \<Rightarrow> str = [])"

text \<open>The adapter object; the \<^verbatim>\<open>multiProvider\<close> handle, which the modelled methods do
  not read, is left out.\<close>

record CosmNativeTokenAdapter =
  chainName :: string
  addresses :: "(string \<times> Address) list"
  properties :: IbcProperties

text \<open>The constructor: the test and the \<^verbatim>\<open>throw\<close> come before \<^verbatim>\<open>super(...)\<close>.\<close>

definition new_CosmNativeTokenAdapter ::
  "string \<Rightarrow> (string \<times> Address) list \<Rightarrow> IbcProperties \<Rightarrow> js_error + CosmNativeTokenAdapter" where
  "new_CosmNativeTokenAdapter name addrs props =
     (if falsy (ibcDenom props) \<or> falsy (sourcePort props) \<or> falsy (sourceChannel props)
      then Inl (Error ''Missing properties for CosmNativeTokenAdapter'')
      else Inr \<lparr> chainName = name, addresses = addrs, properties = props \<rparr>)"

text \<open>
  \<^verbatim>\<open>TransferParams\<close> is a type of the SDK; the fields \<^verbatim>\<open>populateTransferTx\<close> reads are
  kept. \<^verbatim>\<open>fromAccountOwner\<close> is optional.
\<close>

record TransferParams =
  weiAmountOrId :: AmountOrId
  recipient :: Address
  fromAccountOwner :: "Address option"

definition amountToString :: "AmountOrId \<Rightarrow> string" where
  "amountToString a = (case a of Str s \<Rightarrow> s | Num n \<Rightarrow> numberToString n)"

text \<open>
  \<^verbatim>\<open>Long\<close> (package \<^verbatim>\<open>long\<close>) is a signed 64-bit integer. \<^verbatim>\<open>Long.fromNumber\<close> clamps a
  number outside the range to the least or the greatest \<^verbatim>\<open>Long\<close>; \<^verbatim>\<open>multiply\<close> converts
  its argument with \<^verbatim>\<open>fromNumber\<close> and multiplies with wrap-around.
\<close>

type_synonym Long = "64 word"

definition Long_fromNumber :: "int \<Rightarrow> Long" where
  "Long_fromNumber v =
     (if v \<le> - (2 ^ 63) then word_of_int (- (2 ^ 63))
      else if v + 1 \<ge> 2 ^ 63 then word_of_int (2 ^ 63 - 1)
      else word_of_int v)"

definition Long_multiply :: "Long \<Rightarrow> int \<Rightarrow> Long" where
  "Long_multiply a multiplier = a * Long_fromNumber multiplier"

text \<open>The message. Field names are global in a theory, so the fields of the message
  that share a name with a field above carry the prefix \<open>msg\<close>.\<close>

record Coin =
  denom :: "string option"
  amount :: string

record MsgTransfer =
  msg_sourcePort :: "string option"
  msg_sourceChannel :: "string option"
  msg_token :: Coin
  msg_sender :: Address
  msg_receiver :: Address
  msg_timeoutTimestamp :: Long
  msg_memo :: string

record MsgTransferEncodeObject =
  typeUrl :: string
  msg_value :: MsgTransfer

text \<open>
  \<^verbatim>\<open>populateTransferTx(transferParams, memo = '')\<close>. The reading of the clock,
  \<^verbatim>\<open>new Date().getTime()\<close>, milliseconds since the epoch, is the argument \<open>now\<close>; the
  optional \<^verbatim>\<open>memo\<close> is \<open>None\<close> when the caller passes none.
\<close>

definition populateTransferTx ::
  "CosmNativeTokenAdapter \<Rightarrow> int \<Rightarrow> TransferParams \<Rightarrow> string option \<Rightarrow>
   js_error + MsgTransferEncodeObject" where
  "populateTransferTx adapter now transferParams memoArg =
     (if falsy (fromAccountOwner transferParams)
      then Inl (Error ''fromAccountOwner is required for ibc transfers'')
      else Inr
        \<lparr> typeUrl = ''/ibc.applications.transfer.v1.MsgTransfer'',
          msg_value =
            \<lparr> msg_sourcePort = sourcePort (properties adapter),
              msg_sourceChannel = sourceChannel (properties adapter),
              msg_token = \<lparr> denom = ibcDenom (properties adapter),
                        amount = amountToString (weiAmountOrId transferParams) \<rparr>,
              msg_sender = (case fromAccountOwner transferParams of None \<Rightarrow> [] | Some a \<Rightarrow> a),
              msg_receiver = recipient transferParams,
              msg_timeoutTimestamp =
                Long_multiply (Long_fromNumber (now + COSMOS_IBC_TRANSFER_TIMEOUT)) 1000000,
              msg_memo = (case memoArg of None \<Rightarrow> [] | Some s \<Rightarrow> s) \<rparr> \<rparr>)"

section \<open>Auxiliary notions for the proofs\<close>

text \<open>The sequence of \<^verbatim>\<open>push\<close> calls that the three nested loops of
  \<^verbatim>\<open>computeTokenRoutes\<close> make, as (origin chain, destination chain, route) triples,
  and the function that performs such a sequence.\<close>

fun pushes :: "(Caip2Id \<times> Caip2Id \<times> Route) list \<Rightarrow> RoutesMap \<Rightarrow> js_error + RoutesMap" where
  "pushes [] m = Inr m"
| "pushes ((orig, dest, r) # es) m =
     (case push m orig dest r of Inl e \<Rightarrow> Inl e | Inr m' \<Rightarrow> pushes es m')"

definition siblingEdges ::
  "TokenMetadataWithHypTokens \<Rightarrow> HypToken \<Rightarrow> HypToken list \<Rightarrow> (Caip2Id \<times> Caip2Id \<times> Route) list" where
  "siblingEdges token hypToken others =
     concat (map (\<lambda>other.
        if caip2Id other = caip2Id hypToken then []
        else [(caip2Id hypToken, caip2Id other,
                 mkRoute SyntheticToSynthetic token (address hypToken) (address other)),
              (caip2Id other, caip2Id hypToken,
                 mkRoute SyntheticToSynthetic token (address other) (address hypToken))]) others)"

definition hypTokenEdges ::
  "TokenMetadataWithHypTokens \<Rightarrow> HypToken \<Rightarrow> (Caip2Id \<times> Caip2Id \<times> Route) list" where
  "hypTokenEdges token hypToken =
     [(caip2Id token, caip2Id hypToken,
         mkRoute BaseToSynthetic token (routerAddress token) (address hypToken)),
      (caip2Id hypToken, caip2Id token,
         mkRoute SyntheticToBase token (address hypToken) (routerAddress token))]
     @ siblingEdges token hypToken (hypTokens token)"

definition tokenEdges :: "TokenMetadataWithHypTokens \<Rightarrow> (Caip2Id \<times> Caip2Id \<times> Route) list" where
  "tokenEdges token = concat (map (hypTokenEdges token) (hypTokens token))"

definition allEdges :: "TokenMetadataWithHypTokens list \<Rightarrow> (Caip2Id \<times> Caip2Id \<times> Route) list" where
  "allEdges tokens = concat (map tokenEdges tokens)"

definition edgesAt :: "Caip2Id \<Rightarrow> Caip2Id \<Rightarrow> (Caip2Id \<times> Caip2Id \<times> Route) list \<Rightarrow> Route list" where
  "edgesAt X Y es = map (\<lambda>e. snd (snd e)) (filter (\<lambda>e. fst e = X \<and> fst (snd e) = Y) es)"

text \<open>\<open>hasKey m X Y\<close>: \<^verbatim>\<open>m[X][Y]\<close> is an array, not \<^verbatim>\<open>undefined\<close>.\<close>

definition hasKey :: "RoutesMap \<Rightarrow> Caip2Id \<Rightarrow> Caip2Id \<Rightarrow> bool" where
  "hasKey m X Y = (case m X of None \<Rightarrow> False | Some inner \<Rightarrow> inner Y \<noteq> None)"

text \<open>A configuration with one base token on chain \<open>ethereum:1\<close> and two synthetic
  siblings on two other chains.\<close>

definition exampleToken :: TokenMetadataWithHypTokens where
  "exampleToken =
     \<lparr> address = ''0xBa5e'', caip2Id = ''ethereum:1'',
       routerAddress = ''0xC011'', tokenDecimals = 18,
       symbol = ''USDC'', tokenType = collateral, protocol = None,
       hypTokens = [\<lparr> address = ''0x5a'', caip2Id = ''ethereum:10'' \<rparr>,
                    \<lparr> address = ''0x5b'', caip2Id = ''ethereum:137'' \<rparr>] \<rparr>"

text \<open>The edge list a built graph holds for a pair of chains; \<open>None\<close> when
  \<^verbatim>\<open>computeTokenRoutes\<close> throws.\<close>

definition builtRoutes ::
  "TokenMetadataWithHypTokens list \<Rightarrow> Caip2Id \<Rightarrow> Caip2Id \<Rightarrow> Route list option" where
  "builtRoutes tokens X Y =
     (case computeTokenRoutes tokens of Inl e \<Rightarrow> None | Inr m \<Rightarrow> Some (getTokenRoutes X Y m))"

text \<open>Within every token, no synthetic token has the router's address, and synthetic
  tokens on different chains have different addresses.\<close>

definition distinctAddresses :: "TokenMetadataWithHypTokens list \<Rightarrow> bool" where
  "distinctAddresses tokens =
     list_all (\<lambda>t. list_all (\<lambda>h. address h \<noteq> routerAddress t \<and>
                      list_all (\<lambda>h'. caip2Id h' = caip2Id h \<or> address h' \<noteq> address h)
                               (hypTokens t))
                    (hypTokens t)) tokens"

text \<open>One base token whose two synthetic siblings, on two chains, are deployed at the
  same contract address.\<close>

definition sameAddressToken :: TokenMetadataWithHypTokens where
  "sameAddressToken =
     \<lparr> address = ''0xBa5e'', caip2Id = ''ethereum:1'',
       routerAddress = ''0xC011'', tokenDecimals = 18,
       symbol = ''USDC'', tokenType = collateral, protocol = None,
       hypTokens = [\<lparr> address = ''0x5a'', caip2Id = ''ethereum:10'' \<rparr>,
                    \<lparr> address = ''0x5a'', caip2Id = ''ethereum:137'' \<rparr>] \<rparr>"

text \<open>A router contract connected to the domains 10 and 137, and an address check
  that accepts the strings starting with \<open>0x\<close>.\<close>

definition exampleContract :: EvmContract where
  "exampleContract =
     \<lparr> decimals_call = Inr 6, symbol_call = Inr ''USDC'', name_call = Inr ''USD Coin'',
       domains_call = Inr [10, 137],
       routers_call = (\<lambda>d. if d = 10 then Inr ''0x5a'' else if d = 137 then Inr ''0x5b''
                             else Inl (Error ''call revert exception'')),
       populate_approve = (\<lambda>recipient amountOrId.
          Inr \<lparr> tx_to = Some ''0xC011'', tx_value = None, tx_data = Some ''approve'' \<rparr>),
       populate_transfer = (\<lambda>recipient amountOrId.
          Inr \<lparr> tx_to = Some ''0xC011'', tx_value = None, tx_data = Some ''transfer'' \<rparr>) \<rparr>"

definition startsWith0x :: "Address \<Rightarrow> bool" where
  "startsWith0x a = (take 2 a = ''0x'')"

text \<open>Chains on which the router \<open>0xC011\<close> wraps the token at \<open>0xA0b8\<close>, an ERC20
  contract with 6 decimals and the symbol USDC.\<close>

definition exampleEnv :: ChainEnv where
  "exampleEnv =
     \<lparr> wrappedToken_call = (\<lambda>chain router.
          if router = ''0xC011'' then Inr ''0xA0b8'' else Inl (Error ''call revert exception'')),
       erc20At = (\<lambda>chain a. exampleContract) \<rparr>"

text \<open>An adapter with all three IBC properties, and a transfer with a sender.\<close>

definition exampleProperties :: IbcProperties where
  "exampleProperties =
     \<lparr> ibcDenom = Some ''untrn'', sourcePort = Some ''transfer'',
       sourceChannel = Some ''channel-1'' \<rparr>"

definition exampleCosmAdapter :: CosmNativeTokenAdapter where
  "exampleCosmAdapter =
     \<lparr> chainName = ''neutron'', addresses = [], properties = exampleProperties \<rparr>"

definition exampleTransfer :: TransferParams where
  "exampleTransfer =
     \<lparr> weiAmountOrId = Num 1000000, recipient = ''neutron1recipient'',
       fromAccountOwner = Some ''neutron1sender'' \<rparr>"

text \<open>The deadline of a constructed message, read as a signed integer; \<open>None\<close> when
  the construction throws.\<close>

definition transferTimeout :: "js_error + MsgTransferEncodeObject \<Rightarrow> int option" where
  "transferTimeout res =
     (case res of Inl e \<Rightarrow> None | Inr msg \<Rightarrow> Some (sint (msg_timeoutTimestamp (msg_value msg))))"

text \<open>The number of routes with property \<open>P\<close> that a graph holds between the chains of
  a list.\<close>

definition countRoutes :: "(Route \<Rightarrow> bool) \<Rightarrow> Caip2Id list \<Rightarrow> RoutesMap \<Rightarrow> nat" where
  "countRoutes P cs m =
     sum_list (map (\<lambda>X. sum_list (map (\<lambda>Y. length (filter P (getTokenRoutes X Y m))) cs)) cs)"

text \<open>A contract whose metadata read and transaction builders reject, each with an
  \<^verbatim>\<open>Error\<close> that carries the message of the collateral adapter for that operation, and
  a conversion of amounts to big integers.\<close>

definition rejectingContract :: EvmContract where
  "rejectingContract =
     exampleContract
       \<lparr> decimals_call :=
           Inl (Error ''Metadata not available for HypCollateral/HypNative contract.''),
         populate_approve := (\<lambda>spender amountOrId.
           Inl (Error ''Approve not applicable to HypCollateral/HypNative contract.'')),
         populate_transfer := (\<lambda>rcpt amountOrId.
           Inl (Error ''Local transfer not supported for HypCollateral/HypNative contract.'')) \<rparr>"

definition exampleBigNumberFrom :: "AmountOrId \<Rightarrow> js_error + int" where
  "exampleBigNumberFrom a =
     (case a of Num n \<Rightarrow> Inr n | Str s \<Rightarrow> Inl (Error ''invalid BigNumber string''))"

section \<open>The loops as a sequence of pushes\<close>

lemma getTokenRoutes_cases:
  "getTokenRoutes X Y m =
     (case m X of None \<Rightarrow> [] | Some inner \<Rightarrow> (case inner Y of None \<Rightarrow> [] | Some rs \<Rightarrow> rs))"
  by (simp add: getTokenRoutes_def optional_index_def or_else_def split: option.splits)

lemma pushes_append:
  "pushes (xs @ ys) m = (case pushes xs m of Inl e \<Rightarrow> Inl e | Inr m' \<Rightarrow> pushes ys m')"
  by (induction xs arbitrary: m) (auto split: sum.splits)

lemma siblingLoop_pushes:
  "siblingLoop token h others m = pushes (siblingEdges token h others) m"
  by (induction others arbitrary: m) (auto simp: siblingEdges_def split: sum.splits)

lemma hypTokenStep_pushes:
  "hypTokenStep token h m = pushes (hypTokenEdges token h) m"
  by (simp add: hypTokenStep_def hypTokenEdges_def siblingLoop_pushes split: sum.splits)

lemma hypTokenLoop_pushes:
  "hypTokenLoop token hs m = pushes (concat (map (hypTokenEdges token) hs)) m"
  by (induction hs arbitrary: m) (auto simp: hypTokenStep_pushes pushes_append split: sum.splits)

lemma tokenLoop_pushes:
  "tokenLoop tokens m = pushes (allEdges tokens) m"
  by (induction tokens arbitrary: m)
     (auto simp: allEdges_def tokenEdges_def hypTokenLoop_pushes pushes_append split: sum.splits)

lemma push_Inr_iff: "(\<exists>m'. push m X Y r = Inr m') \<longleftrightarrow> hasKey m X Y"
  by (auto simp: push_def hasKey_def split: option.splits)

lemma push_hasKey: "push m orig dest r = Inr m' \<Longrightarrow> hasKey m' X Y = hasKey m X Y"
  by (auto simp: push_def hasKey_def split: option.splits if_splits)

lemma push_getTokenRoutes:
  "push m orig dest r = Inr m' \<Longrightarrow>
   getTokenRoutes X Y m' =
     (if X = orig \<and> Y = dest then getTokenRoutes X Y m @ [r] else getTokenRoutes X Y m)"
  by (auto simp: push_def getTokenRoutes_cases split: option.splits if_splits)

lemma pushes_hasKey: "pushes es m = Inr m' \<Longrightarrow> hasKey m' X Y = hasKey m X Y"
proof (induction es arbitrary: m)
  case Nil
  then show ?case by simp
next
  case (Cons e es)
  obtain orig dest r where e: "e = (orig, dest, r)" by (cases e)
  from Cons.prems e obtain m1 where p: "push m orig dest r = Inr m1" and rest: "pushes es m1 = Inr m'"
    by (auto split: sum.splits)
  from Cons.IH [OF rest] push_hasKey [OF p] show ?case by simp
qed

lemma pushes_getTokenRoutes:
  "pushes es m = Inr m' \<Longrightarrow> getTokenRoutes X Y m' = getTokenRoutes X Y m @ edgesAt X Y es"
proof (induction es arbitrary: m)
  case Nil
  then show ?case by (simp add: edgesAt_def)
next
  case (Cons e es)
  obtain orig dest r where e: "e = (orig, dest, r)" by (cases e)
  from Cons.prems e obtain m1 where p: "push m orig dest r = Inr m1" and rest: "pushes es m1 = Inr m'"
    by (auto split: sum.splits)
  from Cons.IH [OF rest] push_getTokenRoutes [OF p] e show ?case
    by (auto simp: edgesAt_def)
qed

lemma pushes_Inr_iff:
  "(\<exists>m'. pushes es m = Inr m') \<longleftrightarrow> (\<forall>e \<in> set es. hasKey m (fst e) (fst (snd e)))"
proof (induction es arbitrary: m)
  case Nil
  then show ?case by simp
next
  case (Cons e es)
  obtain orig dest r where e: "e = (orig, dest, r)" by (cases e)
  show ?case
  proof (cases "push m orig dest r")
    case (Inl err)
    with push_Inr_iff [of m orig dest r] e show ?thesis by auto
  next
    case (Inr m1)
    with push_Inr_iff [of m orig dest r] have k: "hasKey m orig dest" by auto
    from Inr e Cons.IH [of m1] push_hasKey [OF Inr] k show ?thesis by auto
  qed
qed

section \<open>The skeleton and the built graph\<close>

lemma set_set_add: "set (set_add c cs) = insert c (set cs)"
  by (auto simp: set_add_def)

lemma set_fold_set_add:
  "set (fold (\<lambda>h. set_add (caip2Id h)) hs cs) = set cs \<union> caip2Id ` set hs"
  by (induction hs arbitrary: cs) (auto simp: set_set_add)

lemma set_fold_tokens:
  "set (fold (\<lambda>token cs. fold (\<lambda>h. set_add (caip2Id h)) (hypTokens token)
                             (set_add (caip2Id token) cs)) tokens cs0)
   = set cs0 \<union> (\<Union>t \<in> set tokens. insert (caip2Id t) (caip2Id ` set (hypTokens t)))"
  by (induction tokens arbitrary: cs0) (auto simp: set_set_add set_fold_set_add)

lemma set_getChainsFromTokens:
  "set (getChainsFromTokens tokens)
   = (\<Union>t \<in> set tokens. insert (caip2Id t) (caip2Id ` set (hypTokens t)))"
  by (simp add: getChainsFromTokens_def set_fold_tokens)

lemma fold_dests:
  "fold (\<lambda>dest inner. if origin = dest then inner else inner(dest \<mapsto> [])) cs inner0 Y
   = (if Y \<in> set cs \<and> Y \<noteq> origin then Some [] else inner0 Y)"
  by (induction cs arbitrary: inner0) auto

lemma initDests_apply:
  "initDests origin cs Y = (if Y \<in> set cs \<and> Y \<noteq> origin then Some [] else None)"
  by (simp add: initDests_def fold_dests)

lemma fold_origins:
  "fold (\<lambda>origin m. m(origin \<mapsto> g origin)) cs m0 X = (if X \<in> set cs then Some (g X) else m0 X)"
  by (induction cs arbitrary: m0) auto

lemma initRoutes_apply:
  "initRoutes cs X = (if X \<in> set cs then Some (initDests X cs) else None)"
  by (simp add: initRoutes_def fold_origins)

lemma hasKey_initRoutes: "hasKey (initRoutes cs) X Y \<longleftrightarrow> X \<in> set cs \<and> Y \<in> set cs \<and> X \<noteq> Y"
  by (auto simp: hasKey_def initRoutes_apply initDests_apply)

lemma getTokenRoutes_initRoutes: "getTokenRoutes X Y (initRoutes cs) = []"
  by (simp add: getTokenRoutes_cases initRoutes_apply initDests_apply)

lemma not_hasKey_getTokenRoutes: "\<not> hasKey m X Y \<Longrightarrow> getTokenRoutes X Y m = []"
  by (auto simp: hasKey_def getTokenRoutes_cases split: option.splits)

lemma built_routes:
  "computeTokenRoutes tokens = Inr m \<Longrightarrow> getTokenRoutes X Y m = edgesAt X Y (allEdges tokens)"
  using pushes_getTokenRoutes [of "allEdges tokens" "initRoutes (getChainsFromTokens tokens)" m X Y]
  by (simp add: computeTokenRoutes_def tokenLoop_pushes getTokenRoutes_initRoutes)

lemma built_hasKey:
  "computeTokenRoutes tokens = Inr m \<Longrightarrow>
   hasKey m X Y \<longleftrightarrow> X \<in> set (getChainsFromTokens tokens) \<and> Y \<in> set (getChainsFromTokens tokens) \<and> X \<noteq> Y"
  using pushes_hasKey [of "allEdges tokens" "initRoutes (getChainsFromTokens tokens)" m X Y]
  by (simp add: computeTokenRoutes_def tokenLoop_pushes hasKey_initRoutes)

lemma built_no_self: "computeTokenRoutes tokens = Inr m \<Longrightarrow> getTokenRoutes A A m = []"
  by (simp add: built_hasKey not_hasKey_getTokenRoutes)

lemma set_allEdges:
  "set (allEdges tokens) = (\<Union>t \<in> set tokens. \<Union>h \<in> set (hypTokens t). set (hypTokenEdges t h))"
  by (auto simp: allEdges_def tokenEdges_def)

lemma set_siblingEdges:
  "set (siblingEdges t h others) =
     (\<Union>other \<in> {x \<in> set others. caip2Id x \<noteq> caip2Id h}.
        {(caip2Id h, caip2Id other, mkRoute SyntheticToSynthetic t (address h) (address other)),
         (caip2Id other, caip2Id h, mkRoute SyntheticToSynthetic t (address other) (address h))})"
  by (auto simp: siblingEdges_def)

lemma computeTokenRoutes_Inr_iff:
  "(\<exists>m. computeTokenRoutes tokens = Inr m) \<longleftrightarrow>
   (\<forall>t \<in> set tokens. \<forall>h \<in> set (hypTokens t). caip2Id h \<noteq> caip2Id t)"
  unfolding computeTokenRoutes_def tokenLoop_pushes pushes_Inr_iff hasKey_initRoutes
    set_allEdges set_getChainsFromTokens
  by (auto simp: hypTokenEdges_def set_siblingEdges) metis

section \<open>Route queries\<close>

lemma exampleToken_built: "\<exists>built. computeTokenRoutes [exampleToken] = Inr built"
  by (simp add: computeTokenRoutes_Inr_iff exampleToken_def)

text \<open>
  C6. \<^verbatim>\<open>getTokenRoutes\<close> is defined on every map and every ordered pair of chains: it
  returns the list stored under the pair, and the empty list when the origin or the
  destination key is absent. In a graph built by \<^verbatim>\<open>computeTokenRoutes\<close> no list is
  stored from a chain to itself, so the routes from a chain to itself are empty.
\<close>

theorem getTokenRoutes_total:
  "getTokenRoutes origin dest m =
     (case m origin of None \<Rightarrow> []
      | Some inner \<Rightarrow> (case inner dest of None \<Rightarrow> [] | Some rs \<Rightarrow> rs))
   \<and> (computeTokenRoutes tokens = Inr built \<longrightarrow>
        getTokenRoutes A A built = [] \<and> \<not> hasKey built A A)"
proof -
  have "getTokenRoutes A A built = [] \<and> \<not> hasKey built A A"
    if "computeTokenRoutes tokens = Inr built"
    using that by (simp add: built_hasKey built_no_self)
  then show ?thesis
    by (simp only: getTokenRoutes_cases) simp
qed

theorem getTokenRoutes_total_witness:
  "\<exists>built. computeTokenRoutes [exampleToken] = Inr built
     \<and> getTokenRoutes ''ethereum:1'' ''ethereum:1'' built = []
     \<and> \<not> hasKey built ''ethereum:1'' ''ethereum:1''
     \<and> getTokenRoutes ''ethereum:5'' ''ethereum:1'' Map.empty = []"
proof -
  from exampleToken_built obtain built where b: "computeTokenRoutes [exampleToken] = Inr built" ..
  with getTokenRoutes_total [of "''ethereum:5''" "''ethereum:1''" Map.empty "[exampleToken]" built "''ethereum:1''"]
  show ?thesis by simp
qed

section \<open>Properties of the built graph\<close>

lemma set_edgesAt: "set (edgesAt X Y es) = {r. (X, Y, r) \<in> set es}"
  by (force simp: edgesAt_def)

lemma built_mem:
  "computeTokenRoutes tokens = Inr m \<Longrightarrow>
   r \<in> set (getTokenRoutes X Y m) \<longleftrightarrow> (X, Y, r) \<in> set (allEdges tokens)"
  by (simp add: built_routes set_edgesAt)

lemma mem_allEdges:
  "(X, Y, r) \<in> set (allEdges tokens) \<longleftrightarrow>
   (\<exists>t \<in> set tokens. \<exists>h \<in> set (hypTokens t).
      (X, Y, r) = (caip2Id t, caip2Id h, mkRoute BaseToSynthetic t (routerAddress t) (address h))
    \<or> (X, Y, r) = (caip2Id h, caip2Id t, mkRoute SyntheticToBase t (address h) (routerAddress t))
    \<or> (\<exists>other \<in> set (hypTokens t). caip2Id other \<noteq> caip2Id h \<and>
          ((X, Y, r) = (caip2Id h, caip2Id other,
                          mkRoute SyntheticToSynthetic t (address h) (address other))
         \<or> (X, Y, r) = (caip2Id other, caip2Id h,
                          mkRoute SyntheticToSynthetic t (address other) (address h)))))"
  unfolding set_allEdges hypTokenEdges_def set_append set_siblingEdges
  by (simp only: UN_iff Un_iff set_simps insert_iff empty_iff mem_Collect_eq) blast

lemma builtRoutes_Some:
  "\<forall>t \<in> set tokens. \<forall>h \<in> set (hypTokens t). caip2Id h \<noteq> caip2Id t \<Longrightarrow>
   builtRoutes tokens X Y = Some (edgesAt X Y (allEdges tokens))"
  using computeTokenRoutes_Inr_iff [of tokens]
  by (auto simp: builtRoutes_def built_routes split: sum.splits)

text \<open>
  C2. In every graph built by \<^verbatim>\<open>computeTokenRoutes\<close>, a \<^verbatim>\<open>BaseToSynthetic\<close> edge stored
  from chain \<open>X\<close> to chain \<open>Y\<close> has a \<^verbatim>\<open>SyntheticToBase\<close> edge stored from \<open>Y\<close> to \<open>X\<close>
  with the origin and destination token addresses swapped and the same base chain, base
  token address, router address and decimals.
\<close>

theorem base_to_synthetic_mirrored:
  assumes "computeTokenRoutes tokens = Inr m"
    and "r \<in> set (getTokenRoutes X Y m)"
    and "rtype r = BaseToSynthetic"
  shows "\<exists>r' \<in> set (getTokenRoutes Y X m).
           rtype r' = SyntheticToBase
         \<and> originTokenAddress r' = destTokenAddress r
         \<and> destTokenAddress r' = originTokenAddress r
         \<and> baseCaip2Id r' = baseCaip2Id r
         \<and> baseTokenAddress r' = baseTokenAddress r
         \<and> tokenRouterAddress r' = tokenRouterAddress r
         \<and> decimals r' = decimals r"
proof -
  from assms(1,2) have "(X, Y, r) \<in> set (allEdges tokens)"
    by (simp add: built_mem)
  with assms(3) obtain t h where t: "t \<in> set tokens" and h: "h \<in> set (hypTokens t)"
    and X: "X = caip2Id t" and Y: "Y = caip2Id h"
    and r: "r = mkRoute BaseToSynthetic t (routerAddress t) (address h)"
    by (auto simp: mem_allEdges mkRoute_def)
  let ?r' = "mkRoute SyntheticToBase t (address h) (routerAddress t)"
  from t h X Y have "(Y, X, ?r') \<in> set (allEdges tokens)"
    unfolding mem_allEdges by blast
  with assms(1) have "?r' \<in> set (getTokenRoutes Y X m)"
    by (simp add: built_mem)
  moreover have "rtype ?r' = SyntheticToBase \<and> originTokenAddress ?r' = destTokenAddress r
      \<and> destTokenAddress ?r' = originTokenAddress r \<and> baseCaip2Id ?r' = baseCaip2Id r
      \<and> baseTokenAddress ?r' = baseTokenAddress r \<and> tokenRouterAddress ?r' = tokenRouterAddress r
      \<and> decimals ?r' = decimals r"
    by (simp add: r mkRoute_def)
  ultimately show ?thesis by blast
qed

lemma exampleToken_edges:
  "allEdges [exampleToken] =
    [(''ethereum:1'', ''ethereum:10'', mkRoute BaseToSynthetic exampleToken ''0xC011'' ''0x5a''),
     (''ethereum:10'', ''ethereum:1'', mkRoute SyntheticToBase exampleToken ''0x5a'' ''0xC011''),
     (''ethereum:10'', ''ethereum:137'', mkRoute SyntheticToSynthetic exampleToken ''0x5a'' ''0x5b''),
     (''ethereum:137'', ''ethereum:10'', mkRoute SyntheticToSynthetic exampleToken ''0x5b'' ''0x5a''),
     (''ethereum:1'', ''ethereum:137'', mkRoute BaseToSynthetic exampleToken ''0xC011'' ''0x5b''),
     (''ethereum:137'', ''ethereum:1'', mkRoute SyntheticToBase exampleToken ''0x5b'' ''0xC011''),
     (''ethereum:137'', ''ethereum:10'', mkRoute SyntheticToSynthetic exampleToken ''0x5b'' ''0x5a''),
     (''ethereum:10'', ''ethereum:137'', mkRoute SyntheticToSynthetic exampleToken ''0x5a'' ''0x5b'')]"
  by (simp add: allEdges_def tokenEdges_def hypTokenEdges_def siblingEdges_def exampleToken_def)

theorem base_to_synthetic_mirrored_witness:
  "\<exists>m. computeTokenRoutes [exampleToken] = Inr m
     \<and> mkRoute BaseToSynthetic exampleToken ''0xC011'' ''0x5a''
          \<in> set (getTokenRoutes ''ethereum:1'' ''ethereum:10'' m)
     \<and> (\<exists>r' \<in> set (getTokenRoutes ''ethereum:10'' ''ethereum:1'' m).
           rtype r' = SyntheticToBase
         \<and> originTokenAddress r' = ''0x5a''
         \<and> destTokenAddress r' = ''0xC011''
         \<and> baseCaip2Id r' = ''ethereum:1''
         \<and> baseTokenAddress r' = ''0xBa5e''
         \<and> tokenRouterAddress r' = ''0xC011''
         \<and> decimals r' = 18)"
proof -
  let ?r = "mkRoute BaseToSynthetic exampleToken ''0xC011'' ''0x5a''"
  from exampleToken_built obtain m where m: "computeTokenRoutes [exampleToken] = Inr m" ..
  have mem: "?r \<in> set (getTokenRoutes ''ethereum:1'' ''ethereum:10'' m)"
    by (simp add: built_routes [OF m] exampleToken_edges edgesAt_def)
  have ty: "rtype ?r = BaseToSynthetic"
    by (simp add: mkRoute_def)
  from base_to_synthetic_mirrored [OF m mem ty] m mem show ?thesis
    by (simp add: mkRoute_def exampleToken_def)
qed

text \<open>
  C3, as the code has it. Edge lists are only stored between two different chains, so no
  route leads from a chain to itself. The origin and destination token addresses of a
  route differ when, within each token, no synthetic token has the router's address and
  synthetic tokens on different chains have different addresses.
\<close>

theorem routes_between_distinct_chains:
  assumes "computeTokenRoutes tokens = Inr m"
    and "r \<in> set (getTokenRoutes X Y m)"
  shows "X \<noteq> Y \<and> (distinctAddresses tokens \<longrightarrow> originTokenAddress r \<noteq> destTokenAddress r)"
proof
  from assms built_no_self [OF assms(1), of X] show "X \<noteq> Y" by auto
next
  show "distinctAddresses tokens \<longrightarrow> originTokenAddress r \<noteq> destTokenAddress r"
  proof
    assume d: "distinctAddresses tokens"
    from assms have e: "(X, Y, r) \<in> set (allEdges tokens)"
      by (simp add: built_mem)
    from d have d1: "\<And>t h. t \<in> set tokens \<Longrightarrow> h \<in> set (hypTokens t) \<Longrightarrow> address h \<noteq> routerAddress t"
      and d2: "\<And>t h h'. t \<in> set tokens \<Longrightarrow> h \<in> set (hypTokens t) \<Longrightarrow> h' \<in> set (hypTokens t) \<Longrightarrow>
                 caip2Id h' \<noteq> caip2Id h \<Longrightarrow> address h' \<noteq> address h"
      by (auto simp: distinctAddresses_def list_all_iff)
    from e show "originTokenAddress r \<noteq> destTokenAddress r"
      unfolding mem_allEdges
      by (auto simp: mkRoute_def dest: d1 d2 d1 [symmetric] d2 [symmetric])
  qed
qed

theorem routes_between_distinct_chains_witness:
  "\<exists>m. computeTokenRoutes [exampleToken] = Inr m
     \<and> mkRoute SyntheticToSynthetic exampleToken ''0x5a'' ''0x5b''
          \<in> set (getTokenRoutes ''ethereum:10'' ''ethereum:137'' m)
     \<and> distinctAddresses [exampleToken]
     \<and> ''ethereum:10'' \<noteq> ''ethereum:137''
     \<and> originTokenAddress (mkRoute SyntheticToSynthetic exampleToken ''0x5a'' ''0x5b'')
          \<noteq> destTokenAddress (mkRoute SyntheticToSynthetic exampleToken ''0x5a'' ''0x5b'')"
proof -
  let ?r = "mkRoute SyntheticToSynthetic exampleToken ''0x5a'' ''0x5b''"
  from exampleToken_built obtain m where m: "computeTokenRoutes [exampleToken] = Inr m" ..
  have mem: "?r \<in> set (getTokenRoutes ''ethereum:10'' ''ethereum:137'' m)"
    by (simp add: built_routes [OF m] exampleToken_edges edgesAt_def)
  have d: "distinctAddresses [exampleToken]"
    by (simp add: distinctAddresses_def exampleToken_def)
  from routes_between_distinct_chains [OF m mem] m mem d show ?thesis
    by blast
qed

theorem same_address_siblings_counterexample:
  "builtRoutes [sameAddressToken] ''ethereum:10'' ''ethereum:137'' =
     Some [\<lparr> rtype = SyntheticToSynthetic, baseCaip2Id = ''ethereum:1'',
              baseTokenAddress = ''0xBa5e'', tokenRouterAddress = ''0xC011'',
              originTokenAddress = ''0x5a'', destTokenAddress = ''0x5a'', decimals = 18 \<rparr>,
           \<lparr> rtype = SyntheticToSynthetic, baseCaip2Id = ''ethereum:1'',
              baseTokenAddress = ''0xBa5e'', tokenRouterAddress = ''0xC011'',
              originTokenAddress = ''0x5a'', destTokenAddress = ''0x5a'', decimals = 18 \<rparr>]"
proof -
  have "builtRoutes [sameAddressToken] ''ethereum:10'' ''ethereum:137'' =
          Some (edgesAt ''ethereum:10'' ''ethereum:137'' (allEdges [sameAddressToken]))"
    by (rule builtRoutes_Some) (simp add: sameAddressToken_def)
  then show ?thesis
    by (simp add: allEdges_def tokenEdges_def hypTokenEdges_def siblingEdges_def edgesAt_def
          mkRoute_def sameAddressToken_def)
qed

lemma distinct_set_add: "distinct cs \<Longrightarrow> distinct (set_add c cs)"
  by (simp add: set_add_def)

lemma distinct_fold_set_add:
  "distinct cs \<Longrightarrow> distinct (fold (\<lambda>h. set_add (caip2Id h)) hs cs)"
  by (induction hs arbitrary: cs) (simp_all add: distinct_set_add)

lemma distinct_fold_tokens:
  "distinct cs0 \<Longrightarrow>
   distinct (fold (\<lambda>token cs. fold (\<lambda>h. set_add (caip2Id h)) (hypTokens token)
                             (set_add (caip2Id token) cs)) tokens cs0)"
  by (induction tokens arbitrary: cs0) (simp_all add: distinct_set_add distinct_fold_set_add)

lemma distinct_getChainsFromTokens: "distinct (getChainsFromTokens tokens)"
  by (simp add: getChainsFromTokens_def distinct_fold_tokens)

lemma sum_list_indicator:
  "distinct cs \<Longrightarrow>
   sum_list (map (\<lambda>X. if x = X \<and> Q then 1 else 0) cs) = (if x \<in> set cs \<and> Q then 1 else (0::nat))"
  by (induction cs) auto

lemma count_edgesAt:
  assumes "distinct cs"
    and "\<forall>e \<in> set es. fst e \<in> set cs \<and> fst (snd e) \<in> set cs"
  shows "sum_list (map (\<lambda>X. sum_list (map (\<lambda>Y. length (filter P (edgesAt X Y es))) cs)) cs)
         = length (filter (\<lambda>e. P (snd (snd e))) es)"
  using assms(2)
proof (induction es)
  case Nil
  then show ?case by (simp add: edgesAt_def)
next
  case (Cons e es)
  obtain orig dest r where e: "e = (orig, dest, r)" by (cases e)
  from Cons.prems e have o: "orig \<in> set cs" and d: "dest \<in> set cs" by auto
  have step: "length (filter P (edgesAt X Y (e # es)))
      = (if dest = Y \<and> (orig = X \<and> P r) then 1 else 0) + length (filter P (edgesAt X Y es))" for X Y
    by (simp add: edgesAt_def e)
  have inner: "sum_list (map (\<lambda>Y. length (filter P (edgesAt X Y (e # es)))) cs)
      = (if orig = X \<and> P r then 1 else 0) + sum_list (map (\<lambda>Y. length (filter P (edgesAt X Y es))) cs)" for X
    unfolding step sum_list_addf sum_list_indicator [OF assms(1)] using d by simp
  have outer: "sum_list (map (\<lambda>X. if orig = X \<and> P r then 1 else 0) cs) = (if P r then 1 else (0::nat))"
    unfolding sum_list_indicator [OF assms(1)] using o by simp
  from Cons.prems have "\<forall>e \<in> set es. fst e \<in> set cs \<and> fst (snd e) \<in> set cs" by simp
  from Cons.IH [OF this] show ?case
    unfolding inner sum_list_addf outer by (simp add: e)
qed

lemma filter_other_chain:
  "distinct (map caip2Id hs) \<Longrightarrow> h \<in> set hs \<Longrightarrow>
   length (filter (\<lambda>other. caip2Id other \<noteq> caip2Id h) hs) = length hs - 1"
proof (induction hs)
  case Nil
  then show ?case by simp
next
  case (Cons x xs)
  show ?case
  proof (cases "x = h")
    case True
    with Cons.prems have "\<forall>other \<in> set xs. caip2Id other \<noteq> caip2Id h"
      by (force simp: image_iff)
    then have "filter (\<lambda>other. caip2Id other \<noteq> caip2Id h) xs = xs"
      by (simp add: filter_id_conv)
    with True show ?thesis by simp
  next
    case False
    with Cons.prems have h: "h \<in> set xs" and ne: "caip2Id x \<noteq> caip2Id h" by auto
    from h have "0 < length xs" by (cases xs) auto
    with Cons.IH Cons.prems h ne show ?thesis by simp
  qed
qed

lemma length_siblingEdges:
  "length (siblingEdges t h others)
     = 2 * length (filter (\<lambda>other. caip2Id other \<noteq> caip2Id h) others)"
  by (induction others) (simp_all add: siblingEdges_def)

lemma filter_s2s_siblingEdges:
  "filter (\<lambda>e. rtype (snd (snd e)) = SyntheticToSynthetic) (siblingEdges t h others)
     = siblingEdges t h others"
  by (induction others) (simp_all add: siblingEdges_def mkRoute_def)

lemma filter_s2s_hypTokenEdges:
  "filter (\<lambda>e. rtype (snd (snd e)) = SyntheticToSynthetic) (hypTokenEdges t h)
     = siblingEdges t h (hypTokens t)"
  by (simp add: hypTokenEdges_def filter_s2s_siblingEdges mkRoute_def)

lemma count_s2s_tokenEdges_aux:
  assumes "distinct (map caip2Id (hypTokens t))" and "set hs \<subseteq> set (hypTokens t)"
  shows "length (filter (\<lambda>e. rtype (snd (snd e)) = SyntheticToSynthetic)
                   (concat (map (hypTokenEdges t) hs)))
         = length hs * (2 * (length (hypTokens t) - 1))"
  using assms(2)
proof (induction hs)
  case Nil
  then show ?case by simp
next
  case (Cons h hs)
  then have h: "h \<in> set (hypTokens t)" by simp
  from Cons show ?case
    by (simp add: filter_s2s_hypTokenEdges length_siblingEdges
          filter_other_chain [OF assms(1) h])
qed

lemma count_s2s_tokenEdges:
  "distinct (map caip2Id (hypTokens t)) \<Longrightarrow>
   length (filter (\<lambda>e. rtype (snd (snd e)) = SyntheticToSynthetic) (tokenEdges t))
     = 2 * length (hypTokens t) * (length (hypTokens t) - 1)"
  by (simp add: tokenEdges_def count_s2s_tokenEdges_aux)

lemma allEdges_endpoints:
  "e \<in> set (allEdges tokens) \<Longrightarrow>
   fst e \<in> set (getChainsFromTokens tokens) \<and> fst (snd e) \<in> set (getChainsFromTokens tokens)"
proof -
  assume a: "e \<in> set (allEdges tokens)"
  obtain X Y r where e: "e = (X, Y, r)" by (cases e)
  from a show ?thesis
    unfolding e mem_allEdges set_getChainsFromTokens by auto
qed

text \<open>The count for a single base token with \<open>N\<close> synthetic siblings on \<open>N\<close> different
  chains: the built graph holds \<open>2 * N * (N - 1)\<close> \<^verbatim>\<open>SyntheticToSynthetic\<close> routes.\<close>

lemma sibling_mesh_count:
  assumes "computeTokenRoutes [t] = Inr m"
    and "distinct (map caip2Id (hypTokens t))"
  shows "countRoutes (\<lambda>r. rtype r = SyntheticToSynthetic) (getChainsFromTokens [t]) m
         = 2 * length (hypTokens t) * (length (hypTokens t) - 1)"
proof -
  have "countRoutes (\<lambda>r. rtype r = SyntheticToSynthetic) (getChainsFromTokens [t]) m
      = length (filter (\<lambda>e. rtype (snd (snd e)) = SyntheticToSynthetic) (allEdges [t]))"
    unfolding countRoutes_def built_routes [OF assms(1)]
    by (rule count_edgesAt) (simp_all add: distinct_getChainsFromTokens allEdges_endpoints)
  also have "\<dots> = 2 * length (hypTokens t) * (length (hypTokens t) - 1)"
    using assms(2) by (simp add: allEdges_def count_s2s_tokenEdges)
  finally show ?thesis .
qed

text \<open>
  C1. With one base token and two synthetic siblings on two further chains, the sibling
  loop stores every directed \<^verbatim>\<open>SyntheticToSynthetic\<close> edge twice: the list of each ordered
  pair of sibling chains holds two equal routes, and the graph holds four such routes,
  where one per ordered pair (two in all) is expected.
\<close>

theorem sibling_edges_stored_twice:
  "builtRoutes [exampleToken] ''ethereum:10'' ''ethereum:137'' =
     Some [\<lparr> rtype = SyntheticToSynthetic, baseCaip2Id = ''ethereum:1'',
              baseTokenAddress = ''0xBa5e'', tokenRouterAddress = ''0xC011'',
              originTokenAddress = ''0x5a'', destTokenAddress = ''0x5b'', decimals = 18 \<rparr>,
           \<lparr> rtype = SyntheticToSynthetic, baseCaip2Id = ''ethereum:1'',
              baseTokenAddress = ''0xBa5e'', tokenRouterAddress = ''0xC011'',
              originTokenAddress = ''0x5a'', destTokenAddress = ''0x5b'', decimals = 18 \<rparr>]
   \<and> builtRoutes [exampleToken] ''ethereum:137'' ''ethereum:10'' =
     Some [\<lparr> rtype = SyntheticToSynthetic, baseCaip2Id = ''ethereum:1'',
              baseTokenAddress = ''0xBa5e'', tokenRouterAddress = ''0xC011'',
              originTokenAddress = ''0x5b'', destTokenAddress = ''0x5a'', decimals = 18 \<rparr>,
           \<lparr> rtype = SyntheticToSynthetic, baseCaip2Id = ''ethereum:1'',
              baseTokenAddress = ''0xBa5e'', tokenRouterAddress = ''0xC011'',
              originTokenAddress = ''0x5b'', destTokenAddress = ''0x5a'', decimals = 18 \<rparr>]
   \<and> (\<exists>m. computeTokenRoutes [exampleToken] = Inr m
          \<and> countRoutes (\<lambda>r. rtype r = SyntheticToSynthetic)
               [''ethereum:1'', ''ethereum:10'', ''ethereum:137''] m = 4)"
proof -
  have "builtRoutes [exampleToken] X Y = Some (edgesAt X Y (allEdges [exampleToken]))" for X Y
    by (rule builtRoutes_Some) (simp add: exampleToken_def)
  then have lists: "builtRoutes [exampleToken] ''ethereum:10'' ''ethereum:137'' =
     Some [\<lparr> rtype = SyntheticToSynthetic, baseCaip2Id = ''ethereum:1'',
              baseTokenAddress = ''0xBa5e'', tokenRouterAddress = ''0xC011'',
              originTokenAddress = ''0x5a'', destTokenAddress = ''0x5b'', decimals = 18 \<rparr>,
           \<lparr> rtype = SyntheticToSynthetic, baseCaip2Id = ''ethereum:1'',
              baseTokenAddress = ''0xBa5e'', tokenRouterAddress = ''0xC011'',
              originTokenAddress = ''0x5a'', destTokenAddress = ''0x5b'', decimals = 18 \<rparr>]
   \<and> builtRoutes [exampleToken] ''ethereum:137'' ''ethereum:10'' =
     Some [\<lparr> rtype = SyntheticToSynthetic, baseCaip2Id = ''ethereum:1'',
              baseTokenAddress = ''0xBa5e'', tokenRouterAddress = ''0xC011'',
              originTokenAddress = ''0x5b'', destTokenAddress = ''0x5a'', decimals = 18 \<rparr>,
           \<lparr> rtype = SyntheticToSynthetic, baseCaip2Id = ''ethereum:1'',
              baseTokenAddress = ''0xBa5e'', tokenRouterAddress = ''0xC011'',
              originTokenAddress = ''0x5b'', destTokenAddress = ''0x5a'', decimals = 18 \<rparr>]"
    by (simp add: exampleToken_edges edgesAt_def mkRoute_def) (simp add: exampleToken_def)
  from exampleToken_built obtain m where m: "computeTokenRoutes [exampleToken] = Inr m" ..
  have cs: "getChainsFromTokens [exampleToken] = [''ethereum:1'', ''ethereum:10'', ''ethereum:137'']"
    by (simp add: getChainsFromTokens_def set_add_def exampleToken_def)
  have "countRoutes (\<lambda>r. rtype r = SyntheticToSynthetic) (getChainsFromTokens [exampleToken]) m
          = 2 * length (hypTokens exampleToken) * (length (hypTokens exampleToken) - 1)"
    by (rule sibling_mesh_count [OF m]) (simp add: exampleToken_def)
  also have "\<dots> = 4"
    by (simp add: exampleToken_def)
  finally have "countRoutes (\<lambda>r. rtype r = SyntheticToSynthetic)
               [''ethereum:1'', ''ethereum:10'', ''ethereum:137''] m = 4"
    unfolding cs .
  with m lists show ?thesis by blast
qed

lemma find_Some_append: "find P xs = Some x \<Longrightarrow> find P (xs @ ys) = Some x"
  by (induction xs) (auto split: if_splits)

lemma push_getTokenRoute:
  assumes "push m X' Y' r' = Inr m'"
    and "getTokenRoute valid eq X Y a m = Some r"
  shows "getTokenRoute valid eq X Y a m' = Some r"
proof -
  from assms(2) have v: "valid a"
    and f: "find (\<lambda>r. eq a (baseTokenAddress r)) (getTokenRoutes X Y m) = Some r"
    by (auto simp: getTokenRoute_def split: if_splits)
  from f have "find (\<lambda>r. eq a (baseTokenAddress r)) (getTokenRoutes X Y m @ [r']) = Some r"
    by (rule find_Some_append)
  with f v show ?thesis
    by (auto simp: getTokenRoute_def push_getTokenRoutes [OF assms(1)])
qed

text \<open>
  C7. \<^verbatim>\<open>getTokenRoute\<close> returns no match for an address that fails the address-format
  check. For an address that passes, it returns the route at the least position of the
  edge list of the pair whose base token address equals the given one, and no match when
  the list has none. Routes are appended to the list as they are inserted, and a route
  inserted later never replaces the match found: the first inserted wins.
\<close>

theorem getTokenRoute_first_match:
  "(\<not> valid bad \<longrightarrow> getTokenRoute valid eq X Y bad m = None)
   \<and> (valid a \<longrightarrow>
        (getTokenRoute valid eq X Y a m = None
           \<longleftrightarrow> (\<forall>r \<in> set (getTokenRoutes X Y m). \<not> eq a (baseTokenAddress r)))
      \<and> (\<forall>r. getTokenRoute valid eq X Y a m = Some r
           \<longleftrightarrow> (\<exists>i < length (getTokenRoutes X Y m).
                  getTokenRoutes X Y m ! i = r \<and> eq a (baseTokenAddress r)
                \<and> (\<forall>j < i. \<not> eq a (baseTokenAddress (getTokenRoutes X Y m ! j))))))
   \<and> (push m X' Y' r' = Inr m' \<longrightarrow> getTokenRoute valid eq X Y a m = Some r0
        \<longrightarrow> getTokenRoute valid eq X Y a m' = Some r0)"
proof (intro conjI impI allI)
  assume "\<not> valid bad"
  then show "getTokenRoute valid eq X Y bad m = None"
    by (simp add: getTokenRoute_def)
next
  assume "valid a"
  then show "getTokenRoute valid eq X Y a m = None
      \<longleftrightarrow> (\<forall>r \<in> set (getTokenRoutes X Y m). \<not> eq a (baseTokenAddress r))"
    by (auto simp: getTokenRoute_def find_None_iff)
next
  fix r
  assume "valid a"
  then show "getTokenRoute valid eq X Y a m = Some r
      \<longleftrightarrow> (\<exists>i < length (getTokenRoutes X Y m).
             getTokenRoutes X Y m ! i = r \<and> eq a (baseTokenAddress r)
           \<and> (\<forall>j < i. \<not> eq a (baseTokenAddress (getTokenRoutes X Y m ! j))))"
    by (auto simp: getTokenRoute_def find_Some_iff)
next
  assume "push m X' Y' r' = Inr m'" and "getTokenRoute valid eq X Y a m = Some r0"
  then show "getTokenRoute valid eq X Y a m' = Some r0"
    by (rule push_getTokenRoute)
qed

theorem getTokenRoute_first_match_witness:
  "\<exists>m m'. computeTokenRoutes [exampleToken] = Inr m
     \<and> push m ''ethereum:1'' ''ethereum:10''
          (mkRoute BaseToSynthetic exampleToken ''0xC011'' ''0x5c'') = Inr m'
     \<and> \<not> startsWith0x ''not-a-real-address''
     \<and> startsWith0x ''0xBa5e''
     \<and> getTokenRoute startsWith0x (=) ''ethereum:1'' ''ethereum:10'' ''not-a-real-address'' m = None
     \<and> getTokenRoute startsWith0x (=) ''ethereum:1'' ''ethereum:10'' ''0xBa5e'' m
          = Some (mkRoute BaseToSynthetic exampleToken ''0xC011'' ''0x5a'')
     \<and> getTokenRoute startsWith0x (=) ''ethereum:1'' ''ethereum:10'' ''0xBa5e'' m'
          = Some (mkRoute BaseToSynthetic exampleToken ''0xC011'' ''0x5a'')"
proof -
  let ?r = "mkRoute BaseToSynthetic exampleToken ''0xC011'' ''0x5a''"
  let ?r' = "mkRoute BaseToSynthetic exampleToken ''0xC011'' ''0x5c''"
  from exampleToken_built obtain m where m: "computeTokenRoutes [exampleToken] = Inr m" ..
  have rs: "getTokenRoutes ''ethereum:1'' ''ethereum:10'' m = [?r]"
    by (simp add: built_routes [OF m] exampleToken_edges edgesAt_def)
  have "hasKey m ''ethereum:1'' ''ethereum:10''"
    by (simp add: built_hasKey [OF m] set_getChainsFromTokens exampleToken_def)
  then obtain m' where m': "push m ''ethereum:1'' ''ethereum:10'' ?r' = Inr m'"
    using push_Inr_iff [of m "''ethereum:1''" "''ethereum:10''" ?r'] by blast
  have bad: "\<not> startsWith0x ''not-a-real-address''" and ok: "startsWith0x ''0xBa5e''"
    by (simp_all add: startsWith0x_def)
  note inst = getTokenRoute_first_match [of startsWith0x "''not-a-real-address''" "(=)"
      "''ethereum:1''" "''ethereum:10''" m "''0xBa5e''" "''ethereum:1''" "''ethereum:10''" ?r' m' ?r]
  have base: "baseTokenAddress ?r = ''0xBa5e''"
    by (simp add: mkRoute_def exampleToken_def)
  from inst ok rs base have first: "getTokenRoute startsWith0x (=) ''ethereum:1'' ''ethereum:10'' ''0xBa5e'' m = Some ?r"
    by simp
  from inst bad m' first m ok show ?thesis by blast
qed

section \<open>Properties of the EVM adapters\<close>

text \<open>
  C4, as the code has it. On a collateral (or native-router) adapter, \<^verbatim>\<open>getMetadata\<close>,
  \<^verbatim>\<open>prepareApproveTx\<close> and \<^verbatim>\<open>prepareTransferTx\<close> always throw a plain \<^verbatim>\<open>Error\<close> that
  carries the fixed message of that operation, the one naming the HypCollateral/HypNative
  contract, whatever the contract behind the adapter answers and whatever the recipient
  and the amount are. The methods are those of the common adapter interface, the ones
  that succeed on the other adapters. The plain native adapter refuses the metadata and
  the approval in the same way, with messages of its own. The error has no class or kind
  of its own: only its message tells it from another failure.
\<close>

theorem collateral_adapter_refuses:
  "getMetadata (EvmHypTokenCollateralAdapter c)
     = Inl (Error ''Metadata not available for HypCollateral/HypNative contract.'')
   \<and> prepareApproveTx (EvmHypTokenCollateralAdapter c) spender amountOrId
     = Inl (Error ''Approve not applicable to HypCollateral/HypNative contract.'')
   \<and> prepareTransferTx bigNumberFrom (EvmHypTokenCollateralAdapter c) rcpt amountOrId
     = Inl (Error ''Local transfer not supported for HypCollateral/HypNative contract.'')
   \<and> getMetadata EvmNativeTokenAdapter = Inl (Error ''Metadata not available to native tokens'')
   \<and> prepareApproveTx EvmNativeTokenAdapter spender amountOrId
     = Inl (Error ''Approve not required for native tokens'')"
  by simp

text \<open>
  The refusal is an \<^verbatim>\<open>Error\<close> like any other: the outcome of each of the three
  operations on the collateral adapter equals the outcome of the same operation on a
  synthetic-router adapter whose contract call fails with an \<^verbatim>\<open>Error\<close> of the same
  message, so no type separates the refusal from a failure of the call.
\<close>

theorem refusal_equals_call_failure_counterexample:
  "getMetadata (EvmHypTokenCollateralAdapter exampleContract)
     = getMetadata (EvmHypTokenAdapter rejectingContract)
   \<and> prepareApproveTx (EvmHypTokenCollateralAdapter exampleContract) ''0x5a'' (Num 1)
     = prepareApproveTx (EvmHypTokenAdapter rejectingContract) ''0x5a'' (Num 1)
   \<and> prepareTransferTx exampleBigNumberFrom (EvmHypTokenCollateralAdapter exampleContract)
         ''0x5a'' (Num 1)
     = prepareTransferTx exampleBigNumberFrom (EvmHypTokenAdapter rejectingContract)
         ''0x5a'' (Num 1)
   \<and> getMetadata (EvmHypTokenAdapter exampleContract)
     = Inr \<lparr> md_decimals = 6, md_symbol = ''USDC'', md_name = ''USD Coin'' \<rparr>"
  by (simp add: rejectingContract_def exampleContract_def contractMetadata_def)

lemma promise_all_Inr: "promise_all ps = Inr vs \<longleftrightarrow> ps = map Inr vs"
proof (induction ps arbitrary: vs)
  case Nil
  then show ?case by auto
next
  case (Cons p ps)
  show ?case
  proof (cases p)
    case (Inl e)
    then show ?thesis by auto
  next
    case (Inr v)
    show ?thesis
    proof (cases "promise_all ps")
      case (Inl e)
      with Cons.IH have "ps \<noteq> map Inr ws" for ws by auto
      with Inl Inr show ?thesis by (cases vs) auto
    next
      case Inr': (Inr ws)
      with Cons.IH [of ws] have "ps = map Inr ws" by simp
      with Inr Inr' show ?thesis by (cases vs) (auto simp: inj_map_eq_map)
    qed
  qed
qed

lemma promise_all_map_Inr:
  "promise_all (map f ds) = Inr vs \<longleftrightarrow>
   length vs = length ds \<and> (\<forall>i < length ds. f (ds ! i) = Inr (vs ! i))"
  unfolding promise_all_Inr
  by (auto simp: list_eq_iff_nth_eq)

lemma promise_all_map_ex:
  "(\<exists>vs. promise_all (map f ds) = Inr vs) \<longleftrightarrow> (\<forall>d \<in> set ds. \<exists>a. f d = Inr a)"
proof (induction ds)
  case Nil
  then show ?case by simp
next
  case (Cons d ds)
  then show ?case by (auto split: sum.splits)
qed

lemma length_pairRouters: "length (pairRouters ds rs) = length ds"
  by (simp add: pairRouters_def)

lemma nth_pairRouters:
  "i < length ds \<Longrightarrow>
   pairRouters ds rs ! i = \<lparr> domain = ds ! i, routerEntryAddress = at_index rs i \<rparr>"
  by (simp add: pairRouters_def)

text \<open>
  C10. \<^verbatim>\<open>getAllRouters\<close> returns a list exactly when \<^verbatim>\<open>getDomains\<close> returns the domains
  and \<^verbatim>\<open>getRouterAddress\<close> resolves each of them. The list then has one entry per
  domain, in the order of the domains, and the entry at position \<open>i\<close> holds the domain at
  position \<open>i\<close> with the address that \<^verbatim>\<open>getRouterAddress\<close> resolves for that domain.
\<close>

theorem getAllRouters_pairs_each_domain:
  "((\<exists>rs. getAllRouters norm b2a adapter = Inr rs) \<longleftrightarrow>
      (\<exists>ds. getDomains adapter = Inr ds
         \<and> (\<forall>d \<in> set ds. \<exists>a. getRouterAddress norm b2a adapter d = Inr a)))
   \<and> (getAllRouters norm b2a adapter = Inr routers \<longrightarrow>
        (\<exists>ds. getDomains adapter = Inr ds \<and> length routers = length ds
           \<and> map domain routers = ds
           \<and> (\<forall>i < length ds. \<exists>a. getRouterAddress norm b2a adapter (ds ! i) = Inr a
                 \<and> routers ! i = \<lparr> domain = ds ! i, routerEntryAddress = Some a \<rparr>)))"
proof (intro conjI impI)
  show "(\<exists>rs. getAllRouters norm b2a adapter = Inr rs) \<longleftrightarrow>
      (\<exists>ds. getDomains adapter = Inr ds
         \<and> (\<forall>d \<in> set ds. \<exists>a. getRouterAddress norm b2a adapter d = Inr a))"
  proof (cases "getDomains adapter")
    case (Inl e)
    then show ?thesis by (simp add: getAllRouters_def)
  next
    case (Inr ds)
    have "(\<exists>rs. getAllRouters norm b2a adapter = Inr rs) \<longleftrightarrow>
          (\<exists>vs. promise_all (map (getRouterAddress norm b2a adapter) ds) = Inr vs)"
      by (auto simp: getAllRouters_def Inr split: sum.splits)
    with Inr show ?thesis by (simp add: promise_all_map_ex)
  qed
next
  assume a: "getAllRouters norm b2a adapter = Inr routers"
  then obtain ds vs where ds: "getDomains adapter = Inr ds"
    and vs: "promise_all (map (getRouterAddress norm b2a adapter) ds) = Inr vs"
    and rs: "routers = pairRouters ds vs"
    by (auto simp: getAllRouters_def split: sum.splits)
  from vs have len: "length vs = length ds"
    and each: "\<And>i. i < length ds \<Longrightarrow> getRouterAddress norm b2a adapter (ds ! i) = Inr (vs ! i)"
    by (simp_all add: promise_all_map_Inr)
  have "map domain routers = ds"
    by (rule nth_equalityI) (simp_all add: rs length_pairRouters nth_pairRouters)
  moreover have "\<exists>a. getRouterAddress norm b2a adapter (ds ! i) = Inr a
          \<and> routers ! i = \<lparr> domain = ds ! i, routerEntryAddress = Some a \<rparr>"
    if "i < length ds" for i
    using that each [OF that] len by (simp add: rs nth_pairRouters at_index_def)
  ultimately show "\<exists>ds. getDomains adapter = Inr ds \<and> length routers = length ds
           \<and> map domain routers = ds
           \<and> (\<forall>i < length ds. \<exists>a. getRouterAddress norm b2a adapter (ds ! i) = Inr a
                 \<and> routers ! i = \<lparr> domain = ds ! i, routerEntryAddress = Some a \<rparr>)"
    using ds by (auto simp: rs length_pairRouters)
qed

theorem getAllRouters_pairs_each_domain_witness:
  "\<exists>routers. getAllRouters (\<lambda>a. a) (\<lambda>b. b) (EvmHypTokenCollateralAdapter exampleContract) = Inr routers
     \<and> getDomains (EvmHypTokenCollateralAdapter exampleContract) = Inr [10, 137]
     \<and> length routers = 2
     \<and> routers ! 0 = \<lparr> domain = 10, routerEntryAddress = Some ''0x5a'' \<rparr>
     \<and> routers ! 1 = \<lparr> domain = 137, routerEntryAddress = Some ''0x5b'' \<rparr>"
proof -
  let ?ad = "EvmHypTokenCollateralAdapter exampleContract"
  note inst = getAllRouters_pairs_each_domain [of "\<lambda>a. a" "\<lambda>b. b" ?ad]
  have ds: "getDomains ?ad = Inr [10, 137]"
    by (simp add: exampleContract_def)
  have r10: "getRouterAddress (\<lambda>a. a) (\<lambda>b. b) ?ad 10 = Inr ''0x5a''"
    and r137: "getRouterAddress (\<lambda>a. a) (\<lambda>b. b) ?ad 137 = Inr ''0x5b''"
    by (simp_all add: exampleContract_def)
  from inst ds r10 r137 obtain routers
    where rs: "getAllRouters (\<lambda>a. a) (\<lambda>b. b) ?ad = Inr routers"
    by auto
  from inst [of routers] rs obtain ds' where ds': "getDomains ?ad = Inr ds'"
    and len': "length routers = length ds'"
    and each: "\<forall>i < length ds'. \<exists>a. getRouterAddress (\<lambda>a. a) (\<lambda>b. b) ?ad (ds' ! i) = Inr a
                 \<and> routers ! i = \<lparr> domain = ds' ! i, routerEntryAddress = Some a \<rparr>"
    by blast
  from ds ds' have eq: "ds' = [10, 137]" by simp
  from each have "\<exists>a. getRouterAddress (\<lambda>a. a) (\<lambda>b. b) ?ad 10 = Inr a
      \<and> routers ! 0 = \<lparr> domain = 10, routerEntryAddress = Some a \<rparr>"
    unfolding eq by (auto simp del: getRouterAddress.simps)
  with r10 have e0: "routers ! 0 = \<lparr> domain = 10, routerEntryAddress = Some ''0x5a'' \<rparr>"
    by auto
  from each have "\<exists>a. getRouterAddress (\<lambda>a. a) (\<lambda>b. b) ?ad 137 = Inr a
      \<and> routers ! 1 = \<lparr> domain = 137, routerEntryAddress = Some a \<rparr>"
    unfolding eq by (auto simp del: getRouterAddress.simps)
  with r137 have e1: "routers ! 1 = \<lparr> domain = 137, routerEntryAddress = Some ''0x5b'' \<rparr>"
    by auto
  from rs ds len' eq e0 e1 show ?thesis
    by simp
qed

section \<open>Properties of metadata validation\<close>

lemma validate_ethereum:
  assumes "tokenType token = collateral"
    and "protocol token = None \<or> protocol token = Some Ethereum"
    and "wrappedToken_call env (caip2Id token) (routerAddress token) = Inr w"
  shows "validateTokenMetadata env token =
           compareMetadata token (Some (EvmTokenAdapter (erc20At env (caip2Id token) w)))"
  using assms by (auto simp: validateTokenMetadata_def)

lemma validate_sealevel:
  "protocol token = Some Sealevel \<Longrightarrow> validateTokenMetadata env token = Inr ()"
  by (simp add: validateTokenMetadata_def)

text \<open>
  C5, as the code has it. For a collateral token of the Ethereum protocol (the default
  when the token names none) whose wrapped token and on-chain metadata are read
  successfully: when the configured decimals differ from the on-chain decimals,
  validation fails with an error that names the decimals and prints both values; when
  the decimals agree and the configured symbol differs from the on-chain symbol, it fails
  with an error that names the symbol and prints both values; when both agree it passes.
\<close>

theorem metadata_mismatch_fails:
  assumes "tokenType token = collateral"
    and "protocol token = None \<or> protocol token = Some Ethereum"
    and "wrappedToken_call env (caip2Id token) (routerAddress token) = Inr w"
    and "getMetadata (EvmTokenAdapter (erc20At env (caip2Id token) w)) = Inr md"
  shows "(tokenDecimals token \<noteq> md_decimals md \<longrightarrow>
            validateTokenMetadata env token =
              Inl (Error (''Token config decimals '' @ numberToString (tokenDecimals token)
                          @ '' does not match contract decimals ''
                          @ numberToString (md_decimals md))))
       \<and> (tokenDecimals token = md_decimals md \<and> symbol token \<noteq> md_symbol md \<longrightarrow>
            (\<exists>label. validateTokenMetadata env token =
              Inl (Error (''Token config symbol '' @ symbol token
                          @ '' does not match contract '' @ label @ '' '' @ md_symbol md))))
       \<and> (tokenDecimals token = md_decimals md \<and> symbol token = md_symbol md \<longrightarrow>
            validateTokenMetadata env token = Inr ())"
proof -
  have v: "validateTokenMetadata env token =
             compareMetadata token (Some (EvmTokenAdapter (erc20At env (caip2Id token) w)))"
    using assms(1-3) by (rule validate_ethereum)
  have "\<exists>label. ''Token config symbol '' @ symbol token @ '' does not match contract decimals '' @ md_symbol md
      = ''Token config symbol '' @ symbol token @ '' does not match contract '' @ label @ '' '' @ md_symbol md"
    by (rule exI [of _ "''decimals''"]) simp
  with assms(4) show ?thesis
    unfolding v compareMetadata_def by (simp del: getMetadata.simps)
qed

lemma exampleEnv_metadata:
  "getMetadata (EvmTokenAdapter (erc20At exampleEnv c ''0xA0b8''))
     = Inr \<lparr> md_decimals = 6, md_symbol = ''USDC'', md_name = ''USD Coin'' \<rparr>"
  by (simp add: exampleEnv_def exampleContract_def contractMetadata_def)

theorem metadata_mismatch_fails_witness:
  "validateTokenMetadata exampleEnv exampleToken
     = Inl (Error ''Token config decimals 18 does not match contract decimals 6'')
   \<and> (\<exists>label. validateTokenMetadata exampleEnv (exampleToken \<lparr> tokenDecimals := 6, symbol := ''USDT'' \<rparr>)
     = Inl (Error (''Token config symbol USDT does not match contract '' @ label @ '' USDC'')))
   \<and> validateTokenMetadata exampleEnv (exampleToken \<lparr> tokenDecimals := 6 \<rparr>) = Inr ()"
proof -
  let ?md = "\<lparr> md_decimals = 6, md_symbol = ''USDC'', md_name = ''USD Coin'' \<rparr>"
  have w: "wrappedToken_call exampleEnv (caip2Id t) ''0xC011'' = Inr ''0xA0b8''" for t :: TokenMetadataWithHypTokens
    by (simp add: exampleEnv_def)
  have n18: "numberToString 18 = ''18''" and n6: "numberToString 6 = ''6''"
    by (simp_all add: numberToString_def digit_def)
  have 1: "validateTokenMetadata exampleEnv exampleToken
     = Inl (Error ''Token config decimals 18 does not match contract decimals 6'')"
    using metadata_mismatch_fails [of exampleToken exampleEnv "''0xA0b8''" ?md] w [of exampleToken]
      exampleEnv_metadata [of "caip2Id exampleToken"] n18 n6
    by (simp add: exampleToken_def)
  let ?t2 = "exampleToken \<lparr> tokenDecimals := 6, symbol := ''USDT'' \<rparr>"
  have 2: "\<exists>label. validateTokenMetadata exampleEnv ?t2
     = Inl (Error (''Token config symbol USDT does not match contract '' @ label @ '' USDC''))"
    using metadata_mismatch_fails [of ?t2 exampleEnv "''0xA0b8''" ?md] w [of ?t2]
      exampleEnv_metadata [of "caip2Id ?t2"]
    by (simp add: exampleToken_def)
  let ?t3 = "exampleToken \<lparr> tokenDecimals := 6 \<rparr>"
  have 3: "validateTokenMetadata exampleEnv ?t3 = Inr ()"
    using metadata_mismatch_fails [of ?t3 exampleEnv "''0xA0b8''" ?md] w [of ?t3]
      exampleEnv_metadata [of "caip2Id ?t3"]
    by (simp add: exampleToken_def)
  from 1 2 3 show ?thesis by blast
qed

theorem sealevel_token_not_validated_counterexample:
  "tokenType (exampleToken \<lparr> protocol := Some Sealevel \<rparr>) = collateral
   \<and> tokenDecimals (exampleToken \<lparr> protocol := Some Sealevel \<rparr>) = 18
   \<and> wrappedToken_call exampleEnv ''ethereum:1'' ''0xC011'' = Inr ''0xA0b8''
   \<and> decimals_call (erc20At exampleEnv ''ethereum:1'' ''0xA0b8'') = Inr 6
   \<and> validateTokenMetadata exampleEnv (exampleToken \<lparr> protocol := Some Sealevel \<rparr>) = Inr ()"
  by (simp add: validateTokenMetadata_def exampleToken_def exampleEnv_def exampleContract_def)

section \<open>Properties of the Cosmos IBC adapter\<close>

text \<open>
  C9. The constructor of the Cosmos IBC adapter throws the missing-properties error
  exactly when one of \<^verbatim>\<open>ibcDenom\<close>, \<^verbatim>\<open>sourcePort\<close> and \<^verbatim>\<open>sourceChannel\<close> is absent or
  empty, so no adapter exists on which a transfer could be attempted; when the three are
  present and non-empty it returns the adapter holding them.
\<close>

theorem constructor_checks_ibc_properties:
  "(new_CosmNativeTokenAdapter name addrs props
      = Inl (Error ''Missing properties for CosmNativeTokenAdapter'')
    \<longleftrightarrow> ibcDenom props = None \<or> ibcDenom props = Some []
        \<or> sourcePort props = None \<or> sourcePort props = Some []
        \<or> sourceChannel props = None \<or> sourceChannel props = Some [])
   \<and> (new_CosmNativeTokenAdapter name addrs props
      = Inr \<lparr> chainName = name, addresses = addrs, properties = props \<rparr>
    \<longleftrightarrow> (\<exists>d p c. ibcDenom props = Some d \<and> d \<noteq> [] \<and> sourcePort props = Some p \<and> p \<noteq> []
              \<and> sourceChannel props = Some c \<and> c \<noteq> []))"
  by (auto simp: new_CosmNativeTokenAdapter_def falsy_def split: option.splits)

theorem constructor_checks_ibc_properties_witness:
  "new_CosmNativeTokenAdapter ''neutron'' [] exampleProperties = Inr exampleCosmAdapter
   \<and> new_CosmNativeTokenAdapter ''neutron'' [] (exampleProperties \<lparr> sourceChannel := Some [] \<rparr>)
       = Inl (Error ''Missing properties for CosmNativeTokenAdapter'')
   \<and> new_CosmNativeTokenAdapter ''neutron'' [] (exampleProperties \<lparr> ibcDenom := None \<rparr>)
       = Inl (Error ''Missing properties for CosmNativeTokenAdapter'')"
  using constructor_checks_ibc_properties [of "''neutron''" "[]" exampleProperties]
    constructor_checks_ibc_properties [of "''neutron''" "[]" "exampleProperties \<lparr> sourceChannel := Some [] \<rparr>"]
    constructor_checks_ibc_properties [of "''neutron''" "[]" "exampleProperties \<lparr> ibcDenom := None \<rparr>"]
  by (simp add: exampleProperties_def exampleCosmAdapter_def)

lemma sint_Long_in_range:
  "- (2 ^ 63) \<le> x \<Longrightarrow> x < 2 ^ 63 \<Longrightarrow> sint (word_of_int x :: Long) = x"
  by (simp add: int_word_sint)

lemma Long_fromNumber_in_range:
  "- (2 ^ 63) < v \<Longrightarrow> v < 2 ^ 63 - 1 \<Longrightarrow> Long_fromNumber v = word_of_int v"
  by (simp add: Long_fromNumber_def)

lemma uint_Long_in_range:
  "0 \<le> x \<Longrightarrow> x < 2 ^ 64 \<Longrightarrow> uint (word_of_int x :: Long) = x"
  by (simp add: uint_word_of_int)

text \<open>
  C8, as the code has it. A call with a sender builds a message whose
  \<^verbatim>\<open>timeoutTimestamp\<close> is the clock reading of that call plus 60000 milliseconds, in
  nanoseconds, provided this number fits the 64 bits of a \<^verbatim>\<open>Long\<close>: read as the signed
  number that a \<^verbatim>\<open>Long\<close> is when it lies below \<open>2\<^sup>6\<^sup>3\<close>, read as the unsigned 64-bit
  field of the message when it lies below \<open>2\<^sup>6\<^sup>4\<close>. The deadline is computed from the
  clock reading passed to the call; the adapter stores none. It lies after the time of
  the call.
\<close>

theorem timeout_is_call_time_plus_window:
  assumes "fromAccountOwner params = Some owner" and "owner \<noteq> []"
  shows "\<exists>msg. populateTransferTx adapter now params memoArg = Inr msg
           \<and> (- (2 ^ 63) \<le> (now + 60000) * 1000000 \<and> (now + 60000) * 1000000 < 2 ^ 63 \<longrightarrow>
                sint (msg_timeoutTimestamp (msg_value msg)) = (now + 60000) * 1000000
              \<and> now * 1000000 < sint (msg_timeoutTimestamp (msg_value msg)))
           \<and> (0 \<le> now + 60000 \<and> (now + 60000) * 1000000 < 2 ^ 64 \<longrightarrow>
                uint (msg_timeoutTimestamp (msg_value msg)) = (now + 60000) * 1000000)"
proof -
  let ?ts = "Long_multiply (Long_fromNumber (now + COSMOS_IBC_TRANSFER_TIMEOUT)) 1000000"
  have prod: "?ts = word_of_int ((now + 60000) * 1000000)"
    if "- (2 ^ 63) < now + 60000" and "now + 60000 < 2 ^ 63 - 1"
    using that
    by (simp add: Long_multiply_def COSMOS_IBC_TRANSFER_TIMEOUT_def Long_fromNumber_def)
  have signed: "sint ?ts = (now + 60000) * 1000000"
    if lo: "- (2 ^ 63) \<le> (now + 60000) * 1000000" and hi: "(now + 60000) * 1000000 < 2 ^ 63"
  proof -
    from lo hi have "- (2 ^ 63) < now + 60000" and "now + 60000 < 2 ^ 63 - 1"
      by simp_all
    then have "?ts = word_of_int ((now + 60000) * 1000000)" by (rule prod)
    with lo hi show ?thesis by (simp only: sint_Long_in_range)
  qed
  have unsigned: "uint ?ts = (now + 60000) * 1000000"
    if lo: "0 \<le> now + 60000" and hi: "(now + 60000) * 1000000 < 2 ^ 64"
  proof -
    from lo hi have "- (2 ^ 63) < now + 60000" and "now + 60000 < 2 ^ 63 - 1"
      by simp_all
    then have "?ts = word_of_int ((now + 60000) * 1000000)" by (rule prod)
    moreover from lo have "0 \<le> (now + 60000) * 1000000" by simp
    ultimately show ?thesis using hi by (simp only: uint_Long_in_range)
  qed
  from assms have "populateTransferTx adapter now params memoArg = Inr
        \<lparr> typeUrl = ''/ibc.applications.transfer.v1.MsgTransfer'',
          msg_value =
            \<lparr> msg_sourcePort = sourcePort (properties adapter),
              msg_sourceChannel = sourceChannel (properties adapter),
              msg_token = \<lparr> denom = ibcDenom (properties adapter),
                            amount = amountToString (weiAmountOrId params) \<rparr>,
              msg_sender = owner,
              msg_receiver = recipient params,
              msg_timeoutTimestamp = ?ts,
              msg_memo = (case memoArg of None \<Rightarrow> [] | Some s \<Rightarrow> s) \<rparr> \<rparr>"
    by (simp add: populateTransferTx_def falsy_def)
  with signed unsigned show ?thesis by simp
qed

theorem timeout_is_call_time_plus_window_witness:
  "\<exists>msg. populateTransferTx exampleCosmAdapter 1700000000000 exampleTransfer None = Inr msg
     \<and> sint (msg_timeoutTimestamp (msg_value msg)) = 1700000060000000000
     \<and> 1700000000000000000 < sint (msg_timeoutTimestamp (msg_value msg))
     \<and> uint (msg_timeoutTimestamp (msg_value msg)) = 1700000060000000000"
proof -
  have owner: "fromAccountOwner exampleTransfer = Some ''neutron1sender''"
    by (simp add: exampleTransfer_def)
  have nonempty: "''neutron1sender'' \<noteq> []"
    by simp
  from timeout_is_call_time_plus_window [OF owner nonempty, of exampleCosmAdapter 1700000000000 None]
  show ?thesis by simp
qed

theorem timeout_wraps_counterexample:
  "transferTimeout (populateTransferTx exampleCosmAdapter 20000000000000 exampleTransfer None)
     = Some 1553255986290448384
   \<and> (20000000000000 + 60000) * 1000000 = (20000000060000000000 :: int)"
  by (simp add: transferTimeout_def populateTransferTx_def falsy_def exampleTransfer_def
        Long_multiply_def Long_fromNumber_def COSMOS_IBC_TRANSFER_TIMEOUT_def)

end
